theory Spec2Isabelle
  imports Main "HOL-Library.AList" "HOL-Library.Multiset"
begin

section \<open>Shared runtime model\<close>

text \<open>
  The handlers of package \<open>apis\<close> answer with an HTTP status; the failures the
  claims speak about are the statuses below. \<open>RuntimePanic\<close> stands for a Go run-time
  panic (slice bounds out of range, assignment to an entry of a nil map): the handler
  writes no response of its own.
\<close>

datatype error = BadRequest | Unauthorized | Forbidden | NotFound | InternalError | RuntimePanic

text \<open>Go's \<open>int\<close> is 64 bits wide on the platforms the server runs on; \<open>+\<close> wraps.\<close>

definition wrap64 :: "int \<Rightarrow> int" where
  "wrap64 x = (x + 2 ^ 63) mod 2 ^ 64 - 2 ^ 63"

subsection \<open>strconv\<close>

text \<open>
  \<open>strconv.Atoi\<close> and \<open>strconv.ParseInt(s, 10, 64)\<close> belong to the Go standard
  library. They return a value together with an error; the handlers often drop the
  error and keep the value, so both are modelled. A syntax error comes with value 0, a
  range error with the nearest representable value. \<open>ParseUint\<close> scans from the
  left and stops at the first byte that is no digit or at the first overflow of 64
  unsigned bits, whichever comes first.
\<close>

datatype num_error = ErrSyntax | ErrRange

definition is_digit :: "char \<Rightarrow> bool" where
  "is_digit c = (48 \<le> (of_char c :: nat) \<and> (of_char c :: nat) \<le> 57)"

definition maxUint64 :: nat where
  "maxUint64 = 18446744073709551615"

fun ParseUint_loop :: "string \<Rightarrow> nat \<Rightarrow> nat \<times> num_error option" where
  "ParseUint_loop [] n = (n, None)"
| "ParseUint_loop (c # cs) n =
     (if \<not> is_digit c then (0, Some ErrSyntax)
      else if n \<ge> maxUint64 div 10 + 1 then (maxUint64, Some ErrRange)
      else let n1 = n * 10 + (of_char c - 48)
           in if n1 > maxUint64 then (maxUint64, Some ErrRange)
              else ParseUint_loop cs n1)"

definition ParseUint :: "string \<Rightarrow> nat \<times> num_error option" where
  "ParseUint s = (if s = [] then (0, Some ErrSyntax) else ParseUint_loop s 0)"

definition ParseInt :: "string \<Rightarrow> int \<times> num_error option" where
  "ParseInt s =
     (if s = [] then (0, Some ErrSyntax)
      else let neg = (hd s = CHR ''-'');
               s1 = (if hd s = CHR ''+'' \<or> hd s = CHR ''-'' then tl s else s);
               (un, err) = ParseUint s1
           in if err = Some ErrSyntax then (0, err)
              else if \<not> neg \<and> un \<ge> 2 ^ 63 then (2 ^ 63 - 1, Some ErrRange)
              else if neg \<and> un > 2 ^ 63 then (- (2 ^ 63), Some ErrRange)
              else (if neg then - int un else int un, None))"

definition Atoi :: "string \<Rightarrow> int \<times> num_error option" where
  "Atoi s = ParseInt s"

text \<open>\<open>strconv.Itoa\<close> and \<open>strconv.FormatInt(n, 10)\<close>: the decimal numeral of an integer.\<close>

fun digits :: "nat \<Rightarrow> string" where
  "digits n = (if n < 10 then [char_of (48 + n)] else digits (n div 10) @ [char_of (48 + n mod 10)])"

declare digits.simps [simp del]

definition Itoa :: "int \<Rightarrow> string" where
  "Itoa n = (if n < 0 then CHR ''-'' # digits (nat (- n)) else digits (nat n))"

subsection \<open>Slices and maps\<close>

text \<open>
  The slice expression \<open>xs[lo:hi]\<close> panics unless \<open>0 \<le> lo \<le> hi \<le> cap(xs)\<close>. Every
  call site below first lowers \<open>hi\<close> to \<open>len(xs)\<close> when it is larger, so the bound
  that is checked is the length.
\<close>

definition slice :: "'a list \<Rightarrow> int \<Rightarrow> int \<Rightarrow> error + 'a list" where
  "slice xs lo hi =
     (if 0 \<le> lo \<and> lo \<le> hi \<and> hi \<le> int (length xs)
      then Inr (take (nat (hi - lo)) (drop (nat lo) xs))
      else Inl RuntimePanic)"

text \<open>
  A Go map with integer keys: \<open>None\<close> is the nil map (reads find nothing, \<open>len\<close> is 0,
  a write panics), \<open>Some ps\<close> an allocated map whose entries are the pairs of \<open>ps\<close>.
\<close>

type_synonym 'v gomap = "(int \<times> 'v) list option"

definition map_get :: "'v gomap \<Rightarrow> int \<Rightarrow> 'v option" where
  "map_get m k = (case m of None \<Rightarrow> None | Some ps \<Rightarrow> map_of ps k)"

definition map_len :: "'v gomap \<Rightarrow> int" where
  "map_len m = (case m of None \<Rightarrow> 0 | Some ps \<Rightarrow> int (length ps))"

definition map_put :: "'v gomap \<Rightarrow> int \<Rightarrow> 'v \<Rightarrow> 'v gomap option" where
  "map_put m k v = (case m of None \<Rightarrow> None | Some ps \<Rightarrow> Some (Some (AList.update k v ps)))"



section \<open>Posts\<close>

text \<open>
  \<open>MediaIDs\<close> is a slice that may be nil (\<open>None\<close>); \<open>UpdatePost\<close> tells nil from
  empty. \<open>IsDeleted\<close> carries the JSON tag \<open>"-"\<close>: the decoder never sets it, so the
  decoded body of a request is a \<open>PostBody\<close>, which has no such field.
\<close>

record Post =
  PostID :: int
  UserID :: int
  Content :: string
  CreatedAt :: string
  MediaIDs :: "int list option"
  IsDeleted :: bool

record PostBody =
  body_post_id :: int
  body_user_id :: int
  body_content :: string
  body_createdAt :: string
  body_media_ids :: "int list option"

definition decoded :: "PostBody \<Rightarrow> Post" where
  "decoded b = \<lparr>PostID = body_post_id b, UserID = body_user_id b, Content = body_content b,
     CreatedAt = body_createdAt b, MediaIDs = body_media_ids b, IsDeleted = False\<rparr>"

record PostsHandler =
  Posts :: "Post gomap"

definition GetPost :: "PostsHandler \<Rightarrow> string \<Rightarrow> error + Post" where
  "GetPost h idStr =
     (let postID = fst (Atoi idStr)
      in case map_get (Posts h) postID of
           None \<Rightarrow> Inl NotFound
         | Some post \<Rightarrow> if IsDeleted post then Inl NotFound else Inr post)"

text \<open>The result of a list operation: the page and the \<open>total\<close> field.\<close>

definition GetUserPosts ::
  "PostsHandler \<Rightarrow> (int \<times> Post) list \<Rightarrow> string \<Rightarrow> string \<Rightarrow> string \<Rightarrow> error + (Post list \<times> int)" where
  "GetUserPosts h ord idStr offsetStr limitStr =
     (let userID = fst (Atoi idStr);
          offset = fst (Atoi offsetStr);
          limit = fst (Atoi limitStr);
          userPosts = filter (\<lambda>p. UserID p = userID \<and> \<not> IsDeleted p) (map snd ord)
      in if length userPosts = 0 then Inl NotFound
         else let end0 = wrap64 (offset + limit);
                  end1 = (if end0 > int (length userPosts) then int (length userPosts) else end0);
                  offset1 = (if offset > int (length userPosts) then int (length userPosts) else offset)
              in case slice userPosts offset1 end1 of
                   Inl e \<Rightarrow> Inl e
                 | Inr page \<Rightarrow> Inr (page, int (length userPosts)))"

definition GetOwnPosts ::
  "PostsHandler \<Rightarrow> (int \<times> Post) list \<Rightarrow> string \<Rightarrow> string \<Rightarrow> error + (Post list \<times> int)" where
  "GetOwnPosts h ord offsetStr limitStr =
     (let currentUserID = 1;
          offset = fst (Atoi offsetStr);
          limit = fst (Atoi limitStr);
          userPosts = filter (\<lambda>p. UserID p = currentUserID \<and> \<not> IsDeleted p) (map snd ord);
          end0 = wrap64 (offset + limit);
          end1 = (if end0 > int (length userPosts) then int (length userPosts) else end0);
          offset1 = (if offset > int (length userPosts) then int (length userPosts) else offset)
      in case slice userPosts offset1 end1 of
           Inl e \<Rightarrow> Inl e
         | Inr page \<Rightarrow> Inr (page, int (length userPosts)))"

text \<open>
  \<open>CreatePost\<close>: \<open>body\<close> is what the JSON decoder made of the request (\<open>None\<close> when
  it failed), \<open>now\<close> the formatted clock reading. A success answers the new id.
\<close>

definition CreatePost ::
  "PostsHandler \<Rightarrow> string \<Rightarrow> PostBody option \<Rightarrow> PostsHandler \<times> (error + int)" where
  "CreatePost h now body =
     (case body of
        None \<Rightarrow> (h, Inl BadRequest)
      | Some b \<Rightarrow>
          if Content (decoded b) = [] then (h, Inl BadRequest)
          else let newID = map_len (Posts h) + 1;
                   req = (decoded b)\<lparr>PostID := newID, UserID := 1, CreatedAt := now\<rparr>
               in (case map_put (Posts h) newID req of
                     None \<Rightarrow> (h, Inl RuntimePanic)
                   | Some m \<Rightarrow> (h\<lparr>Posts := m\<rparr>, Inr newID)))"

definition UpdatePost ::
  "PostsHandler \<Rightarrow> string \<Rightarrow> PostBody option \<Rightarrow> PostsHandler \<times> (error + string)" where
  "UpdatePost h idStr body =
     (let postID = fst (Atoi idStr)
      in case map_get (Posts h) postID of
           None \<Rightarrow> (h, Inl Forbidden)
         | Some post \<Rightarrow>
             if IsDeleted post \<or> UserID post \<noteq> 1 then (h, Inl Forbidden)
             else (case body of
                     None \<Rightarrow> (h, Inl BadRequest)
                   | Some b \<Rightarrow>
                       let req = decoded b;
                           post1 = (if Content req \<noteq> [] then post\<lparr>Content := Content req\<rparr> else post);
                           post2 = (if MediaIDs req \<noteq> None then post1\<lparr>MediaIDs := MediaIDs req\<rparr> else post1)
                       in (case map_put (Posts h) postID post2 of
                             None \<Rightarrow> (h, Inl RuntimePanic)
                           | Some m \<Rightarrow> (h\<lparr>Posts := m\<rparr>, Inr ''Post updated''))))"

definition DeletePost :: "PostsHandler \<Rightarrow> string \<Rightarrow> PostsHandler \<times> (error + string)" where
  "DeletePost h idStr =
     (let postID = fst (Atoi idStr)
      in case map_get (Posts h) postID of
           None \<Rightarrow> (h, Inl Forbidden)
         | Some post \<Rightarrow>
             if IsDeleted post \<or> UserID post \<noteq> 1 then (h, Inl Forbidden)
             else (case map_put (Posts h) postID (post\<lparr>IsDeleted := True\<rparr>) of
                     None \<Rightarrow> (h, Inl RuntimePanic)
                   | Some m \<Rightarrow> (h\<lparr>Posts := m\<rparr>, Inr ''Post soft deleted'')))"




subsection \<open>The store's invariant\<close>






section \<open>Notifications\<close>

record Notification =
  notif_ID :: int
  notif_Type :: string
  notif_SourceUserID :: int
  notif_PostID :: int
  notif_Read :: bool
  notif_CreatedAt :: string

record NotificationHandler =
  notifications :: "Notification list"

definition GetNotifications ::
  "NotificationHandler \<Rightarrow> string \<Rightarrow> string \<Rightarrow> error + (Notification list \<times> int)" where
  "GetNotifications h offsetStr limitStr =
     (let offset = fst (Atoi offsetStr);
          limit = (case snd (Atoi limitStr) of None \<Rightarrow> fst (Atoi limitStr) | Some err \<Rightarrow> 10);
          total = int (length (notifications h));
          end0 = wrap64 (offset + limit);
          end1 = (if end0 > total then total else end0)
      in case slice (notifications h) offset end1 of
           Inl e \<Rightarrow> Inl e
         | Inr result \<Rightarrow> Inr (result, total))"

section \<open>News feed\<close>

text \<open>
  A \<open>time.Time\<close> holds a 64-bit count of seconds since the year 1 and the nanoseconds
  within the second. It is read here as that count less 62135596800, that is as seconds
  since the Unix epoch, with the nanoseconds. \<open>time.Unix(sec, 0)\<close> adds 62135596800 to
  \<open>sec\<close> in 64 bits, and \<open>t.Unix()\<close> subtracts it in 64 bits; both wrap.
  \<open>time.Parse(time.RFC3339, s)\<close> belongs to the standard library; the handler drops
  its error and keeps the value, so the parser is an argument \<open>parse\<close> of the handler.
  The clock reading \<open>time.Now()\<close> is the argument \<open>now\<close>.
\<close>

type_synonym Time = "int \<times> int"

definition Before :: "Time \<Rightarrow> Time \<Rightarrow> bool" where
  "Before t u = (fst t < fst u \<or> (fst t = fst u \<and> snd t < snd u))"

definition time_Unix :: "int \<Rightarrow> Time" where
  "time_Unix sec = (wrap64 (sec + 62135596800) - 62135596800, 0)"

definition Unix :: "Time \<Rightarrow> int" where
  "Unix t = wrap64 (fst t)"

definition zero_Time :: Time where
  "zero_Time = (- 62135596800, 0)"

record FeedItem =
  feed_PostID :: int
  feed_UserID :: int
  feed_Username :: string
  feed_Avatar :: string
  feed_Content :: string
  feed_MediaURLs :: "string list"
  feed_CreatedAt :: string
  feed_LikeCount :: int
  feed_CommentCount :: int
  feed_IsLiked :: bool

record FeedsHandler =
  feeds :: "FeedItem list"

text \<open>The filtering loop: \<open>result\<close> grows by the items that pass; the length test follows the append.\<close>

fun feed_loop ::
  "(string \<Rightarrow> Time) \<Rightarrow> Time \<Rightarrow> string \<Rightarrow> int \<Rightarrow> FeedItem list \<Rightarrow> FeedItem list \<Rightarrow> FeedItem list" where
  "feed_loop parse beforeTime beforeStr limit [] result = result"
| "feed_loop parse beforeTime beforeStr limit (f # fs) result =
     (if Before (parse (feed_CreatedAt f)) beforeTime \<or> beforeStr = []
      then (if int (length (result @ [f])) \<ge> limit then result @ [f]
            else feed_loop parse beforeTime beforeStr limit fs (result @ [f]))
      else feed_loop parse beforeTime beforeStr limit fs result)"

definition GetNewsFeed ::
  "(string \<Rightarrow> Time) \<Rightarrow> Time \<Rightarrow> FeedsHandler \<Rightarrow> string \<Rightarrow> string \<Rightarrow> FeedItem list \<times> string" where
  "GetNewsFeed parse now h beforeStr limitStr =
     (let limit = (if limitStr \<noteq> []
                   then (case snd (Atoi limitStr) of None \<Rightarrow> fst (Atoi limitStr) | Some err \<Rightarrow> 10)
                   else 10);
          beforeTime = (if beforeStr \<noteq> []
                        then (case snd (ParseInt beforeStr) of
                                None \<Rightarrow> time_Unix (fst (ParseInt beforeStr))
                              | Some err \<Rightarrow> zero_Time)
                        else now);
          result = feed_loop parse beforeTime beforeStr limit (feeds h) [];
          nextCursor = (if length result > 0
                        then Itoa (Unix (parse (feed_CreatedAt (last result))))
                        else [])
      in (result, nextCursor))"

section \<open>Follows\<close>

record Follow =
  follow_UserID :: int
  follow_Username :: string
  follow_Avatar :: string

record FollowsHandler =
  followers :: "int \<rightharpoonup> Follow list"
  following :: "int \<rightharpoonup> Follow list"

definition NewFollowsHandler :: FollowsHandler where
  "NewFollowsHandler = \<lparr>followers = Map.empty, following = Map.empty\<rparr>"

text \<open>Reading a key the map does not hold gives the nil slice.\<close>

definition list_at :: "(int \<rightharpoonup> 'a list) \<Rightarrow> int \<Rightarrow> 'a list" where
  "list_at m k = (case m k of None \<Rightarrow> [] | Some xs \<Rightarrow> xs)"

text \<open>
  The removal loop of \<open>UnfollowUser\<close>: the first element that passes is cut out,
  \<open>append(xs[:i], xs[i+1:]...)\<close>, and the loop breaks; \<open>None\<close> when no element passes.
\<close>

fun remove_first :: "('a \<Rightarrow> bool) \<Rightarrow> 'a list \<Rightarrow> 'a list option" where
  "remove_first P [] = None"
| "remove_first P (x # xs) =
     (if P x then Some xs
      else (case remove_first P xs of None \<Rightarrow> None | Some ys \<Rightarrow> Some (x # ys)))"

definition FollowUser :: "FollowsHandler \<Rightarrow> string \<Rightarrow> FollowsHandler \<times> (error + string)" where
  "FollowUser h targetStr =
     (let targetID = fst (Atoi targetStr);
          currentID = 1
      in if list_ex (\<lambda>u. follow_UserID u = targetID) (list_at (following h) currentID)
         then (h, Inl BadRequest)
         else let user = \<lparr>follow_UserID = targetID, follow_Username = ''user'' @ Itoa targetID,
                           follow_Avatar = []\<rparr>;
                  h1 = h\<lparr>following := (following h)(currentID \<mapsto> list_at (following h) currentID @ [user])\<rparr>;
                  h2 = h1\<lparr>followers := (followers h1)(targetID \<mapsto> list_at (followers h1) targetID @
                          [\<lparr>follow_UserID = currentID, follow_Username = ''user1'', follow_Avatar = []\<rparr>])\<rparr>
              in (h2, Inr ''Followed''))"

definition UnfollowUser :: "FollowsHandler \<Rightarrow> string \<Rightarrow> FollowsHandler \<times> (error + string)" where
  "UnfollowUser h targetStr =
     (let targetID = fst (Atoi targetStr);
          currentID = 1;
          followingList = list_at (following h) currentID
      in case remove_first (\<lambda>u. follow_UserID u = targetID) followingList of
           None \<Rightarrow> (h, Inl Forbidden)
         | Some rest \<Rightarrow>
             let h1 = h\<lparr>following := (following h)(currentID \<mapsto> rest)\<rparr>;
                 followerList = list_at (followers h1) targetID;
                 h2 = (case remove_first (\<lambda>u. follow_UserID u = currentID) followerList of
                         None \<Rightarrow> h1
                       | Some rest2 \<Rightarrow> h1\<lparr>followers := (followers h1)(targetID \<mapsto> rest2)\<rparr>)
             in (h2, Inr ''Unfollowed''))"

datatype follow_request = ReqFollow string | ReqUnfollow string

fun follow_step :: "FollowsHandler \<Rightarrow> follow_request \<Rightarrow> FollowsHandler" where
  "follow_step h (ReqFollow targetStr) = fst (FollowUser h targetStr)"
| "follow_step h (ReqUnfollow targetStr) = fst (UnfollowUser h targetStr)"

definition follow_steps :: "follow_request list \<Rightarrow> FollowsHandler" where
  "follow_steps rs = foldl follow_step NewFollowsHandler rs"

text \<open>
  The user ids in the list a map holds for a key, and the invariant of the follow graph:
  the current user's following list and every followers list name a user at most once,
  and the current user is among the followers of \<open>k\<close> only if \<open>k\<close> is among those the
  current user follows.
\<close>

definition follow_ids :: "(int \<rightharpoonup> Follow list) \<Rightarrow> int \<Rightarrow> int set" where
  "follow_ids m k = follow_UserID ` set (list_at m k)"

definition follows_inv :: "FollowsHandler \<Rightarrow> bool" where
  "follows_inv h =
     (distinct (map follow_UserID (list_at (following h) 1))
      \<and> (\<forall>k. distinct (map follow_UserID (list_at (followers h) k)))
      \<and> (\<forall>k. 1 \<in> follow_ids (followers h) k \<longrightarrow> k \<in> follow_ids (following h) 1))"

section \<open>Reactions\<close>

text \<open>
  \<open>reactions\<close> maps a post id to the map from user id to reaction type; the outer map is
  nil (\<open>None\<close>) in a handler built as \<open>&ReactionsHandler{}\<close> and allocated by
  \<open>NewReactionsHandler\<close>. \<open>body\<close> is the \<open>reaction_type\<close> the JSON decoder read
  (\<open>None\<close> when it failed). \<open>strings.TrimSpace\<close> belongs to the standard library and
  is the argument \<open>TrimSpace\<close>.
\<close>

record ReactionsHandler =
  reactions :: "(string \<rightharpoonup> (string \<rightharpoonup> string)) option"

definition NewReactionsHandler :: ReactionsHandler where
  "NewReactionsHandler = \<lparr>reactions = Some Map.empty\<rparr>"

text \<open>
  The handler the program serves: \<open>main\<close> builds it as \<open>&apis.ReactionsHandler{}\<close> and
  does not call \<open>NewReactionsHandler\<close>, so its map is nil.
\<close>

definition main_reactHandler :: ReactionsHandler where
  "main_reactHandler = \<lparr>reactions = None\<rparr>"

definition ReactToPost ::
  "(string \<Rightarrow> string) \<Rightarrow> ReactionsHandler \<Rightarrow> string \<Rightarrow> string option \<Rightarrow> ReactionsHandler \<times> (error + string)" where
  "ReactToPost TrimSpace h postID body =
     (case body of
        None \<Rightarrow> (h, Inl BadRequest)
      | Some reactionType \<Rightarrow>
          if TrimSpace reactionType = [] then (h, Inl BadRequest)
          else let userID = ''user1''
               in (case reactions h of
                     None \<Rightarrow> (h, Inl RuntimePanic)
                   | Some m \<Rightarrow>
                       let m1 = (case m postID of None \<Rightarrow> m(postID \<mapsto> Map.empty) | Some inner \<Rightarrow> m);
                           inner1 = (case m1 postID of None \<Rightarrow> Map.empty | Some inner \<Rightarrow> inner)
                       in (h\<lparr>reactions := Some (m1(postID \<mapsto> inner1(userID \<mapsto> reactionType)))\<rparr>,
                           Inr ''Reaction added'')))"

definition RemoveReaction :: "ReactionsHandler \<Rightarrow> string \<Rightarrow> ReactionsHandler \<times> (error + string)" where
  "RemoveReaction h postID =
     (let userID = ''user1''
      in case reactions h of
           None \<Rightarrow> (h, Inl NotFound)
         | Some m \<Rightarrow>
             (case m postID of
                None \<Rightarrow> (h, Inl NotFound)
              | Some postReactions \<Rightarrow>
                  if (case postReactions userID of None \<Rightarrow> [] | Some t \<Rightarrow> t) = []
                  then (h, Inl NotFound)
                  else (h\<lparr>reactions := Some (m(postID \<mapsto> postReactions(userID := None)))\<rparr>,
                        Inr ''Reaction removed'')))"

text \<open>The reaction stored for a post and a user, \<open>None\<close> when there is none.\<close>

definition reaction_of :: "ReactionsHandler \<Rightarrow> string \<Rightarrow> string \<Rightarrow> string option" where
  "reaction_of h postID userID =
     (case reactions h of
        None \<Rightarrow> None
      | Some m \<Rightarrow> (case m postID of None \<Rightarrow> None | Some postReactions \<Rightarrow> postReactions userID))"

section \<open>Media\<close>

text \<open>
  An upload request as the handler sees it: whether \<open>ParseMultipartForm\<close> succeeded, the
  form values \<open>type\<close> and \<open>post_id\<close>, the file name of the part \<open>file\<close> (\<open>None\<close>
  when \<open>FormFile\<close> fails), and whether \<open>os.Create\<close> succeeded on the destination.
  \<open>filepath.Base\<close> and \<open>filepath.Join\<close> belong to the standard library and are
  arguments of the handler.
\<close>

record Media =
  media_ID :: int
  media_Type :: string
  media_PostID :: int
  media_URL :: string

record MediaHandler =
  nextID :: int
  medias :: "Media list"

definition NewMediaHandler :: MediaHandler where
  "NewMediaHandler = \<lparr>nextID = 1, medias = []\<rparr>"

record UploadRequest =
  form_ok :: bool
  form_type :: string
  form_post_id :: string
  form_file :: "string option"
  create_ok :: bool

definition UploadMedia ::
  "(string \<Rightarrow> string) \<Rightarrow> (string \<Rightarrow> string \<Rightarrow> string) \<Rightarrow> MediaHandler \<Rightarrow> UploadRequest
     \<Rightarrow> MediaHandler \<times> (error + int)" where
  "UploadMedia Base Join h r =
     (if \<not> form_ok r then (h, Inl BadRequest)
      else let mediaType = form_type r
      in if mediaType \<noteq> ''image'' \<and> mediaType \<noteq> ''video'' then (h, Inl BadRequest)
      else let postID = fst (Atoi (form_post_id r));
               err = snd (Atoi (form_post_id r))
      in if err \<noteq> None \<or> postID \<le> 0 then (h, Inl NotFound)
      else (case form_file r of
              None \<Rightarrow> (h, Inl BadRequest)
            | Some name \<Rightarrow>
                let uploadDir = ''./uploads'';
                    filename = Itoa (nextID h) @ ''_'' @ Base name;
                    dstPath = Join uploadDir filename
                in if \<not> create_ok r then (h, Inl InternalError)
                   else let media = \<lparr>media_ID = nextID h, media_Type = mediaType,
                                       media_PostID = postID, media_URL = dstPath\<rparr>
                        in (h\<lparr>medias := medias h @ [media], nextID := wrap64 (nextID h + 1)\<rparr>,
                            Inr (media_ID media))))"

section \<open>Profiles\<close>





section \<open>Pagination as the specification states it\<close>

text \<open>
  The specification's page of a collection: the sub-sequence \<open>[offset, offset + limit)\<close>,
  cut at the end of the collection, and the bound \<open>clamp\<close> on its length.
\<close>

definition clamp :: "int \<Rightarrow> int \<Rightarrow> int \<Rightarrow> int" where
  "clamp x lo hi = max lo (min hi x)"

definition spec_page :: "'a list \<Rightarrow> int \<Rightarrow> int \<Rightarrow> 'a list" where
  "spec_page xs offset limit = take (nat limit) (drop (nat offset) xs)"

section \<open>Verified properties\<close>

subsection \<open>Auxiliary facts about the map model\<close>

lemma map_get_put:
  "map_put m k v = Some m' \<Longrightarrow> map_get m' k' = (if k' = k then Some v else map_get m k')"
  by (auto simp: map_put_def map_get_def update_conv' split: option.splits)

lemma map_put_defined: "map_get m k = Some v \<Longrightarrow> \<exists>m'. map_put m k v' = Some m'"
  by (auto simp: map_put_def map_get_def split: option.splits)

subsection \<open>Posts: a missing record\<close>

text \<open>
  C4 (as stated, refuted). The claim has \<open>UpdatePost\<close> and \<open>DeletePost\<close> answer
  NotFound for an id without a record. On an allocated, empty store both answer
  Forbidden for the id 5.
\<close>

theorem missing_post_not_NotFound:
  "map_get (Posts \<lparr>Posts = Some []\<rparr>) (fst (Atoi ''5'')) = None
   \<and> snd (UpdatePost \<lparr>Posts = Some []\<rparr> ''5'' None) = Inl Forbidden
   \<and> snd (UpdatePost \<lparr>Posts = Some []\<rparr> ''5'' None) \<noteq> Inl NotFound
   \<and> snd (DeletePost \<lparr>Posts = Some []\<rparr> ''5'') = Inl Forbidden
   \<and> snd (DeletePost \<lparr>Posts = Some []\<rparr> ''5'') \<noteq> Inl NotFound"
  by (simp add: UpdatePost_def DeletePost_def map_get_def)

text \<open>
  C4 (amended). For every id without a record in the store, \<open>UpdatePost\<close> and
  \<open>DeletePost\<close> fail with Forbidden, whatever the request body, and leave the store as
  it was: the handlers test existence, deletion and ownership in one guard with one
  answer.
\<close>

theorem missing_post_is_Forbidden:
  assumes "map_get (Posts h) (fst (Atoi idStr)) = None"
  shows "UpdatePost h idStr body = (h, Inl Forbidden) \<and> DeletePost h idStr = (h, Inl Forbidden)"
  using assms by (simp add: UpdatePost_def DeletePost_def)

theorem missing_post_is_Forbidden_witness:
  "map_get (Posts \<lparr>Posts = Some []\<rparr>) (fst (Atoi ''5'')) = None
   \<and> UpdatePost \<lparr>Posts = Some []\<rparr> ''5'' None = (\<lparr>Posts = Some []\<rparr>, Inl Forbidden)
   \<and> DeletePost \<lparr>Posts = Some []\<rparr> ''5'' = (\<lparr>Posts = Some []\<rparr>, Inl Forbidden)"
proof -
  have h: "map_get (Posts \<lparr>Posts = Some []\<rparr>) (fst (Atoi ''5'')) = None"
    by (simp add: map_get_def)
  show ?thesis using h missing_post_is_Forbidden [OF h, of None] by simp
qed

subsection \<open>Posts: creation\<close>

lemma CreatePost_ok:
  assumes "Posts h = Some ps" and "body_content b \<noteq> []"
  shows "CreatePost h now (Some b) =
           (h\<lparr>Posts := Some (AList.update (int (length ps) + 1)
              \<lparr>PostID = int (length ps) + 1, UserID = 1, Content = body_content b,
                CreatedAt = now, MediaIDs = body_media_ids b, IsDeleted = False\<rparr> ps)\<rparr>,
            Inr (int (length ps) + 1))"
  using assms by (simp add: CreatePost_def decoded_def map_put_def map_len_def Let_def)

text \<open>
  C10. On an allocated store, every \<open>CreatePost\<close> request whose body decodes with
  non-empty content succeeds with the id \<open>len(store) + 1\<close>; the post stored under that id
  has that id, author 1, the clock reading as creation time and is not deleted, whatever
  \<open>post_id\<close>, \<open>user_id\<close> and \<open>createdAt\<close> the body carried (a deleted flag cannot be
  supplied: the field is not decoded). Two bodies that agree on content and media ids
  lead to the same store and the same answer.
\<close>

theorem CreatePost_ignores_identity_fields:
  assumes "Posts h \<noteq> None" and "body_content b \<noteq> []"
  shows "snd (CreatePost h now (Some b)) = Inr (map_len (Posts h) + 1)
         \<and> map_get (Posts (fst (CreatePost h now (Some b)))) (map_len (Posts h) + 1) =
               Some \<lparr>PostID = map_len (Posts h) + 1, UserID = 1, Content = body_content b,
                     CreatedAt = now, MediaIDs = body_media_ids b, IsDeleted = False\<rparr>
         \<and> (\<forall>b'. body_content b' = body_content b \<and> body_media_ids b' = body_media_ids b
               \<longrightarrow> CreatePost h now (Some b') = CreatePost h now (Some b))"
proof -
  from assms(1) obtain ps where ps: "Posts h = Some ps" by auto
  have a: "snd (CreatePost h now (Some b)) = Inr (map_len (Posts h) + 1)"
    by (simp add: CreatePost_ok [OF ps assms(2)] map_len_def ps)
  have b: "map_get (Posts (fst (CreatePost h now (Some b)))) (map_len (Posts h) + 1) =
               Some \<lparr>PostID = map_len (Posts h) + 1, UserID = 1, Content = body_content b,
                     CreatedAt = now, MediaIDs = body_media_ids b, IsDeleted = False\<rparr>"
    by (simp add: CreatePost_ok [OF ps assms(2)] map_len_def ps map_get_def update_conv')
  have c: "CreatePost h now (Some b') = CreatePost h now (Some b)"
    if "body_content b' = body_content b \<and> body_media_ids b' = body_media_ids b" for b'
  proof -
    from that assms(2) have "body_content b' \<noteq> []" by simp
    then show ?thesis using that
      by (simp add: CreatePost_ok [OF ps] assms(2))
  qed
  from a b c show ?thesis by blast
qed


theorem CreatePost_ignores_identity_fields_witness:
  "Posts \<lparr>Posts = Some []\<rparr> \<noteq> None
   \<and> body_content \<lparr>body_post_id = 77, body_user_id = 9, body_content = ''hi'',
          body_createdAt = ''1999'', body_media_ids = Some [3]\<rparr> \<noteq> []
   \<and> snd (CreatePost \<lparr>Posts = Some []\<rparr> ''2025-08-14T00:00:00Z''
        (Some \<lparr>body_post_id = 77, body_user_id = 9, body_content = ''hi'',
               body_createdAt = ''1999'', body_media_ids = Some [3]\<rparr>)) = Inr 1
   \<and> map_get (Posts (fst (CreatePost \<lparr>Posts = Some []\<rparr> ''2025-08-14T00:00:00Z''
        (Some \<lparr>body_post_id = 77, body_user_id = 9, body_content = ''hi'',
               body_createdAt = ''1999'', body_media_ids = Some [3]\<rparr>)))) 1 =
       Some \<lparr>PostID = 1, UserID = 1, Content = ''hi'', CreatedAt = ''2025-08-14T00:00:00Z'',
             MediaIDs = Some [3], IsDeleted = False\<rparr>
   \<and> CreatePost \<lparr>Posts = Some []\<rparr> ''2025-08-14T00:00:00Z''
        (Some \<lparr>body_post_id = 0, body_user_id = 1, body_content = ''hi'',
               body_createdAt = [], body_media_ids = Some [3]\<rparr>)
     = CreatePost \<lparr>Posts = Some []\<rparr> ''2025-08-14T00:00:00Z''
        (Some \<lparr>body_post_id = 77, body_user_id = 9, body_content = ''hi'',
               body_createdAt = ''1999'', body_media_ids = Some [3]\<rparr>)"
proof -
  let ?h = "\<lparr>Posts = Some []\<rparr>"
  let ?b = "\<lparr>body_post_id = 77, body_user_id = 9, body_content = ''hi'',
               body_createdAt = ''1999'', body_media_ids = Some [3]\<rparr>"
  let ?b' = "\<lparr>body_post_id = 0, body_user_id = 1, body_content = ''hi'',
               body_createdAt = [], body_media_ids = Some [3]\<rparr>"
  have h1: "Posts ?h \<noteq> None" by simp
  have h2: "body_content ?b \<noteq> []" by simp
  have len: "map_len (Posts ?h) = 0" by (simp add: map_len_def)
  note t = CreatePost_ignores_identity_fields [OF h1 h2, of "''2025-08-14T00:00:00Z''", unfolded len]
  note t1 = t [THEN conjunct1] and t2 = t [THEN conjunct2, THEN conjunct1]
    and t3 = t [THEN conjunct2, THEN conjunct2, THEN spec, of ?b']
  from t3 have c: "CreatePost ?h ''2025-08-14T00:00:00Z'' (Some ?b') = CreatePost ?h ''2025-08-14T00:00:00Z'' (Some ?b)"
    by simp
  from t1 t2 h1 h2 c show ?thesis by simp
qed

subsection \<open>Posts: soft deletion\<close>






















lemma Atoi_1: "Atoi ''1'' = (1, None)"
  by (simp add: Atoi_def ParseInt_def ParseUint_def is_digit_def maxUint64_def)


subsection \<open>Posts: ownership\<close>

text \<open>
  C3 (as stated, refuted). The claim has \<open>UpdatePost\<close> succeed whenever the author of
  an existing, visible post is the current user. With a body the JSON decoder rejects,
  the owner's update fails with BadRequest.
\<close>

theorem owner_update_can_fail:
  "map_get (Posts \<lparr>Posts = Some [(1, \<lparr>PostID = 1, UserID = 1, Content = ''a'', CreatedAt = ''t0'', MediaIDs = None, IsDeleted = False\<rparr>)]\<rparr>) (fst (Atoi ''1'')) = Some \<lparr>PostID = 1, UserID = 1, Content = ''a'', CreatedAt = ''t0'', MediaIDs = None, IsDeleted = False\<rparr>
   \<and> \<not> IsDeleted \<lparr>PostID = 1, UserID = 1, Content = ''a'', CreatedAt = ''t0'', MediaIDs = None, IsDeleted = False\<rparr> \<and> UserID \<lparr>PostID = 1, UserID = 1, Content = ''a'', CreatedAt = ''t0'', MediaIDs = None, IsDeleted = False\<rparr> = 1
   \<and> snd (UpdatePost \<lparr>Posts = Some [(1, \<lparr>PostID = 1, UserID = 1, Content = ''a'', CreatedAt = ''t0'', MediaIDs = None, IsDeleted = False\<rparr>)]\<rparr> ''1'' None) = Inl BadRequest"
  by (simp add: UpdatePost_def Atoi_1 map_get_def)

lemma visible_post_store:
  assumes "map_get (Posts h) k = Some post"
  obtains ps where "Posts h = Some ps" and "map_of ps k = Some post"
  using assms by (cases "Posts h") (auto simp: map_get_def)

text \<open>
  C3 (amended). For every existing post that is not deleted: when its author is not the
  current user 1, \<open>UpdatePost\<close> and \<open>DeletePost\<close> fail with Forbidden and leave the
  store as it was. When its author is the current user, \<open>DeletePost\<close> succeeds and a
  following \<open>GetPost\<close> on the id answers NotFound; \<open>UpdatePost\<close> fails with
  BadRequest on a body that does not decode and succeeds on every body that does, and a
  following \<open>GetPost\<close> returns the post with its content replaced by the body's when
  that is non-empty and its media ids replaced by the body's when they are present.
\<close>

theorem ownership_of_post_mutations:
  assumes "map_get (Posts h) (fst (Atoi idStr)) = Some post" and "\<not> IsDeleted post"
  shows "(UserID post \<noteq> 1 \<longrightarrow>
            UpdatePost h idStr body = (h, Inl Forbidden) \<and> DeletePost h idStr = (h, Inl Forbidden))
       \<and> (UserID post = 1 \<longrightarrow>
            snd (DeletePost h idStr) = Inr ''Post soft deleted''
          \<and> GetPost (fst (DeletePost h idStr)) idStr = Inl NotFound
          \<and> UpdatePost h idStr None = (h, Inl BadRequest)
          \<and> (\<forall>b. snd (UpdatePost h idStr (Some b)) = Inr ''Post updated''
                 \<and> GetPost (fst (UpdatePost h idStr (Some b))) idStr =
                     Inr (post\<lparr>Content := (if body_content b \<noteq> [] then body_content b else Content post),
                               MediaIDs := (if body_media_ids b \<noteq> None then body_media_ids b
                                            else MediaIDs post)\<rparr>)))"
proof -
  from assms(1) obtain ps where ps: "Posts h = Some ps" and mp: "map_of ps (fst (Atoi idStr)) = Some post"
    by (rule visible_post_store)
  have non_owner: "UpdatePost h idStr body = (h, Inl Forbidden) \<and> DeletePost h idStr = (h, Inl Forbidden)"
    if "UserID post \<noteq> 1"
    using that assms by (simp add: UpdatePost_def DeletePost_def)
  have del: "snd (DeletePost h idStr) = Inr ''Post soft deleted''
             \<and> GetPost (fst (DeletePost h idStr)) idStr = Inl NotFound" if "UserID post = 1"
    using that assms ps
    by (simp add: DeletePost_def GetPost_def map_put_def map_get_def update_conv')
  have bad: "UpdatePost h idStr None = (h, Inl BadRequest)" if "UserID post = 1"
    using that assms by (simp add: UpdatePost_def)
  have upd: "snd (UpdatePost h idStr (Some b)) = Inr ''Post updated''
        \<and> GetPost (fst (UpdatePost h idStr (Some b))) idStr =
            Inr (post\<lparr>Content := (if body_content b \<noteq> [] then body_content b else Content post),
                      MediaIDs := (if body_media_ids b \<noteq> None then body_media_ids b
                                   else MediaIDs post)\<rparr>)" if "UserID post = 1" for b
    using that assms ps
    by (simp add: UpdatePost_def GetPost_def decoded_def map_put_def map_get_def update_conv' Let_def)
  from non_owner del bad upd show ?thesis by blast
qed


lemma Atoi_2: "Atoi ''2'' = (2, None)"
  by (simp add: Atoi_def ParseInt_def ParseUint_def is_digit_def maxUint64_def)

theorem ownership_of_post_mutations_witness:
  "map_get (Posts \<lparr>Posts = Some [(1, \<lparr>PostID = 1, UserID = 1, Content = ''a'', CreatedAt = ''t0'', MediaIDs = None, IsDeleted = False\<rparr>), (2, \<lparr>PostID = 2, UserID = 2, Content = ''b'', CreatedAt = ''t1'', MediaIDs = None, IsDeleted = False\<rparr>)]\<rparr>) (fst (Atoi ''2'')) = Some \<lparr>PostID = 2, UserID = 2, Content = ''b'', CreatedAt = ''t1'', MediaIDs = None, IsDeleted = False\<rparr>
   \<and> UpdatePost \<lparr>Posts = Some [(1, \<lparr>PostID = 1, UserID = 1, Content = ''a'', CreatedAt = ''t0'', MediaIDs = None, IsDeleted = False\<rparr>), (2, \<lparr>PostID = 2, UserID = 2, Content = ''b'', CreatedAt = ''t1'', MediaIDs = None, IsDeleted = False\<rparr>)]\<rparr> ''2'' (Some \<lparr>body_post_id = 0, body_user_id = 0, body_content = ''new'', body_createdAt = [], body_media_ids = None\<rparr>) = (\<lparr>Posts = Some [(1, \<lparr>PostID = 1, UserID = 1, Content = ''a'', CreatedAt = ''t0'', MediaIDs = None, IsDeleted = False\<rparr>), (2, \<lparr>PostID = 2, UserID = 2, Content = ''b'', CreatedAt = ''t1'', MediaIDs = None, IsDeleted = False\<rparr>)]\<rparr>, Inl Forbidden)
   \<and> DeletePost \<lparr>Posts = Some [(1, \<lparr>PostID = 1, UserID = 1, Content = ''a'', CreatedAt = ''t0'', MediaIDs = None, IsDeleted = False\<rparr>), (2, \<lparr>PostID = 2, UserID = 2, Content = ''b'', CreatedAt = ''t1'', MediaIDs = None, IsDeleted = False\<rparr>)]\<rparr> ''2'' = (\<lparr>Posts = Some [(1, \<lparr>PostID = 1, UserID = 1, Content = ''a'', CreatedAt = ''t0'', MediaIDs = None, IsDeleted = False\<rparr>), (2, \<lparr>PostID = 2, UserID = 2, Content = ''b'', CreatedAt = ''t1'', MediaIDs = None, IsDeleted = False\<rparr>)]\<rparr>, Inl Forbidden)
   \<and> map_get (Posts \<lparr>Posts = Some [(1, \<lparr>PostID = 1, UserID = 1, Content = ''a'', CreatedAt = ''t0'', MediaIDs = None, IsDeleted = False\<rparr>), (2, \<lparr>PostID = 2, UserID = 2, Content = ''b'', CreatedAt = ''t1'', MediaIDs = None, IsDeleted = False\<rparr>)]\<rparr>) (fst (Atoi ''1'')) = Some \<lparr>PostID = 1, UserID = 1, Content = ''a'', CreatedAt = ''t0'', MediaIDs = None, IsDeleted = False\<rparr>
   \<and> snd (DeletePost \<lparr>Posts = Some [(1, \<lparr>PostID = 1, UserID = 1, Content = ''a'', CreatedAt = ''t0'', MediaIDs = None, IsDeleted = False\<rparr>), (2, \<lparr>PostID = 2, UserID = 2, Content = ''b'', CreatedAt = ''t1'', MediaIDs = None, IsDeleted = False\<rparr>)]\<rparr> ''1'') = Inr ''Post soft deleted''
   \<and> GetPost (fst (DeletePost \<lparr>Posts = Some [(1, \<lparr>PostID = 1, UserID = 1, Content = ''a'', CreatedAt = ''t0'', MediaIDs = None, IsDeleted = False\<rparr>), (2, \<lparr>PostID = 2, UserID = 2, Content = ''b'', CreatedAt = ''t1'', MediaIDs = None, IsDeleted = False\<rparr>)]\<rparr> ''1'')) ''1'' = Inl NotFound
   \<and> snd (UpdatePost \<lparr>Posts = Some [(1, \<lparr>PostID = 1, UserID = 1, Content = ''a'', CreatedAt = ''t0'', MediaIDs = None, IsDeleted = False\<rparr>), (2, \<lparr>PostID = 2, UserID = 2, Content = ''b'', CreatedAt = ''t1'', MediaIDs = None, IsDeleted = False\<rparr>)]\<rparr> ''1'' (Some \<lparr>body_post_id = 0, body_user_id = 0, body_content = ''new'', body_createdAt = [], body_media_ids = None\<rparr>)) = Inr ''Post updated''
   \<and> GetPost (fst (UpdatePost \<lparr>Posts = Some [(1, \<lparr>PostID = 1, UserID = 1, Content = ''a'', CreatedAt = ''t0'', MediaIDs = None, IsDeleted = False\<rparr>), (2, \<lparr>PostID = 2, UserID = 2, Content = ''b'', CreatedAt = ''t1'', MediaIDs = None, IsDeleted = False\<rparr>)]\<rparr> ''1'' (Some \<lparr>body_post_id = 0, body_user_id = 0, body_content = ''new'', body_createdAt = [], body_media_ids = None\<rparr>))) ''1'' = Inr \<lparr>PostID = 1, UserID = 1, Content = ''new'', CreatedAt = ''t0'', MediaIDs = None, IsDeleted = False\<rparr>"
proof -
  have g2: "map_get (Posts \<lparr>Posts = Some [(1, \<lparr>PostID = 1, UserID = 1, Content = ''a'', CreatedAt = ''t0'', MediaIDs = None, IsDeleted = False\<rparr>), (2, \<lparr>PostID = 2, UserID = 2, Content = ''b'', CreatedAt = ''t1'', MediaIDs = None, IsDeleted = False\<rparr>)]\<rparr>) (fst (Atoi ''2'')) = Some \<lparr>PostID = 2, UserID = 2, Content = ''b'', CreatedAt = ''t1'', MediaIDs = None, IsDeleted = False\<rparr>"
    by (simp add: Atoi_2 map_get_def)
  have v2: "\<not> IsDeleted \<lparr>PostID = 2, UserID = 2, Content = ''b'', CreatedAt = ''t1'', MediaIDs = None, IsDeleted = False\<rparr>" by simp
  have g1: "map_get (Posts \<lparr>Posts = Some [(1, \<lparr>PostID = 1, UserID = 1, Content = ''a'', CreatedAt = ''t0'', MediaIDs = None, IsDeleted = False\<rparr>), (2, \<lparr>PostID = 2, UserID = 2, Content = ''b'', CreatedAt = ''t1'', MediaIDs = None, IsDeleted = False\<rparr>)]\<rparr>) (fst (Atoi ''1'')) = Some \<lparr>PostID = 1, UserID = 1, Content = ''a'', CreatedAt = ''t0'', MediaIDs = None, IsDeleted = False\<rparr>"
    by (simp add: Atoi_1 map_get_def)
  have v1: "\<not> IsDeleted \<lparr>PostID = 1, UserID = 1, Content = ''a'', CreatedAt = ''t0'', MediaIDs = None, IsDeleted = False\<rparr>" by simp
  note t2 = ownership_of_post_mutations [OF g2 v2, of "Some \<lparr>body_post_id = 0, body_user_id = 0, body_content = ''new'', body_createdAt = [], body_media_ids = None\<rparr>", THEN conjunct1]
  note t1 = ownership_of_post_mutations [OF g1 v1, of None, THEN conjunct2]
  from t2 have a: "UpdatePost \<lparr>Posts = Some [(1, \<lparr>PostID = 1, UserID = 1, Content = ''a'', CreatedAt = ''t0'', MediaIDs = None, IsDeleted = False\<rparr>), (2, \<lparr>PostID = 2, UserID = 2, Content = ''b'', CreatedAt = ''t1'', MediaIDs = None, IsDeleted = False\<rparr>)]\<rparr> ''2'' (Some \<lparr>body_post_id = 0, body_user_id = 0, body_content = ''new'', body_createdAt = [], body_media_ids = None\<rparr>) = (\<lparr>Posts = Some [(1, \<lparr>PostID = 1, UserID = 1, Content = ''a'', CreatedAt = ''t0'', MediaIDs = None, IsDeleted = False\<rparr>), (2, \<lparr>PostID = 2, UserID = 2, Content = ''b'', CreatedAt = ''t1'', MediaIDs = None, IsDeleted = False\<rparr>)]\<rparr>, Inl Forbidden)
      \<and> DeletePost \<lparr>Posts = Some [(1, \<lparr>PostID = 1, UserID = 1, Content = ''a'', CreatedAt = ''t0'', MediaIDs = None, IsDeleted = False\<rparr>), (2, \<lparr>PostID = 2, UserID = 2, Content = ''b'', CreatedAt = ''t1'', MediaIDs = None, IsDeleted = False\<rparr>)]\<rparr> ''2'' = (\<lparr>Posts = Some [(1, \<lparr>PostID = 1, UserID = 1, Content = ''a'', CreatedAt = ''t0'', MediaIDs = None, IsDeleted = False\<rparr>), (2, \<lparr>PostID = 2, UserID = 2, Content = ''b'', CreatedAt = ''t1'', MediaIDs = None, IsDeleted = False\<rparr>)]\<rparr>, Inl Forbidden)" by simp
  from t1 have b: "snd (DeletePost \<lparr>Posts = Some [(1, \<lparr>PostID = 1, UserID = 1, Content = ''a'', CreatedAt = ''t0'', MediaIDs = None, IsDeleted = False\<rparr>), (2, \<lparr>PostID = 2, UserID = 2, Content = ''b'', CreatedAt = ''t1'', MediaIDs = None, IsDeleted = False\<rparr>)]\<rparr> ''1'') = Inr ''Post soft deleted''
      \<and> GetPost (fst (DeletePost \<lparr>Posts = Some [(1, \<lparr>PostID = 1, UserID = 1, Content = ''a'', CreatedAt = ''t0'', MediaIDs = None, IsDeleted = False\<rparr>), (2, \<lparr>PostID = 2, UserID = 2, Content = ''b'', CreatedAt = ''t1'', MediaIDs = None, IsDeleted = False\<rparr>)]\<rparr> ''1'')) ''1'' = Inl NotFound" by simp
  from t1 have "snd (UpdatePost \<lparr>Posts = Some [(1, \<lparr>PostID = 1, UserID = 1, Content = ''a'', CreatedAt = ''t0'', MediaIDs = None, IsDeleted = False\<rparr>), (2, \<lparr>PostID = 2, UserID = 2, Content = ''b'', CreatedAt = ''t1'', MediaIDs = None, IsDeleted = False\<rparr>)]\<rparr> ''1'' (Some \<lparr>body_post_id = 0, body_user_id = 0, body_content = ''new'', body_createdAt = [], body_media_ids = None\<rparr>)) = Inr ''Post updated''
      \<and> GetPost (fst (UpdatePost \<lparr>Posts = Some [(1, \<lparr>PostID = 1, UserID = 1, Content = ''a'', CreatedAt = ''t0'', MediaIDs = None, IsDeleted = False\<rparr>), (2, \<lparr>PostID = 2, UserID = 2, Content = ''b'', CreatedAt = ''t1'', MediaIDs = None, IsDeleted = False\<rparr>)]\<rparr> ''1'' (Some \<lparr>body_post_id = 0, body_user_id = 0, body_content = ''new'', body_createdAt = [], body_media_ids = None\<rparr>))) ''1'' =
          Inr (\<lparr>PostID = 1, UserID = 1, Content = ''a'', CreatedAt = ''t0'', MediaIDs = None, IsDeleted = False\<rparr>\<lparr>Content := (if body_content \<lparr>body_post_id = 0, body_user_id = 0, body_content = ''new'', body_createdAt = [], body_media_ids = None\<rparr> \<noteq> [] then body_content \<lparr>body_post_id = 0, body_user_id = 0, body_content = ''new'', body_createdAt = [], body_media_ids = None\<rparr> else Content \<lparr>PostID = 1, UserID = 1, Content = ''a'', CreatedAt = ''t0'', MediaIDs = None, IsDeleted = False\<rparr>),
               MediaIDs := (if body_media_ids \<lparr>body_post_id = 0, body_user_id = 0, body_content = ''new'', body_createdAt = [], body_media_ids = None\<rparr> \<noteq> None then body_media_ids \<lparr>body_post_id = 0, body_user_id = 0, body_content = ''new'', body_createdAt = [], body_media_ids = None\<rparr> else MediaIDs \<lparr>PostID = 1, UserID = 1, Content = ''a'', CreatedAt = ''t0'', MediaIDs = None, IsDeleted = False\<rparr>)\<rparr>)"
    by simp
  then have c: "snd (UpdatePost \<lparr>Posts = Some [(1, \<lparr>PostID = 1, UserID = 1, Content = ''a'', CreatedAt = ''t0'', MediaIDs = None, IsDeleted = False\<rparr>), (2, \<lparr>PostID = 2, UserID = 2, Content = ''b'', CreatedAt = ''t1'', MediaIDs = None, IsDeleted = False\<rparr>)]\<rparr> ''1'' (Some \<lparr>body_post_id = 0, body_user_id = 0, body_content = ''new'', body_createdAt = [], body_media_ids = None\<rparr>)) = Inr ''Post updated''
      \<and> GetPost (fst (UpdatePost \<lparr>Posts = Some [(1, \<lparr>PostID = 1, UserID = 1, Content = ''a'', CreatedAt = ''t0'', MediaIDs = None, IsDeleted = False\<rparr>), (2, \<lparr>PostID = 2, UserID = 2, Content = ''b'', CreatedAt = ''t1'', MediaIDs = None, IsDeleted = False\<rparr>)]\<rparr> ''1'' (Some \<lparr>body_post_id = 0, body_user_id = 0, body_content = ''new'', body_createdAt = [], body_media_ids = None\<rparr>))) ''1'' = Inr \<lparr>PostID = 1, UserID = 1, Content = ''new'', CreatedAt = ''t0'', MediaIDs = None, IsDeleted = False\<rparr>" by simp
  from g2 a g1 b c show ?thesis by blast
qed

subsection \<open>Pagination\<close>

lemma wrap64_id: "- (2 ^ 63) \<le> x \<Longrightarrow> x < 2 ^ 63 \<Longrightarrow> wrap64 x = x"
  by (simp add: wrap64_def)

lemma spec_page_length:
  "0 \<le> offset \<Longrightarrow> 0 \<le> limit \<Longrightarrow>
   int (length (spec_page xs offset limit)) = clamp limit 0 (max 0 (int (length xs) - offset))"
  by (auto simp: spec_page_def clamp_def)

lemma spec_page_beyond: "int (length xs) < offset \<Longrightarrow> spec_page xs offset limit = []"
  by (simp add: spec_page_def)

lemma take_min_length: "take (min n (length ys)) ys = take n ys"
  by (cases "n \<le> length ys") (simp_all add: min_def)

lemma slice_page:
  assumes "0 \<le> offset" and "0 \<le> limit"
  shows "slice xs (if offset > int (length xs) then int (length xs) else offset)
           (if offset + limit > int (length xs) then int (length xs) else offset + limit)
         = Inr (spec_page xs offset limit)"
proof (cases "offset > int (length xs)")
  case True
  with assms show ?thesis by (simp add: slice_def spec_page_def)
next
  case False
  then have le: "offset \<le> int (length xs)" by simp
  show ?thesis
  proof (cases "offset + limit > int (length xs)")
    case True
    have "nat (int (length xs) - offset) = length (drop (nat offset) xs)"
      using assms le by (simp add: nat_diff_distrib')
    moreover have "length (drop (nat offset) xs) \<le> nat limit" using True assms by simp
    ultimately have "take (nat (int (length xs) - offset)) (drop (nat offset) xs)
        = take (nat limit) (drop (nat offset) xs)" by simp
    with True False assms le show ?thesis by (simp add: slice_def spec_page_def)
  next
    case F2: False
    with False assms show ?thesis by (simp add: slice_def spec_page_def)
  qed
qed

text \<open>
  C1 (as stated, refuted). The claim has every list operation return a page, empty with
  the total still reported when the offset exceeds the size. \<open>GetUserPosts\<close> answers
  NotFound when the user has no visible post; \<open>GetNotifications\<close> does not lower an
  offset beyond the size and its slice expression panics; and where \<open>offset + limit\<close>
  exceeds the 64-bit range the sum wraps and the slice expression panics.
\<close>

theorem pagination_not_total:
  "GetUserPosts \<lparr>Posts = Some []\<rparr> [] ''2'' ''1'' ''5'' = Inl NotFound
   \<and> GetNotifications \<lparr>notifications = []\<rparr> ''1'' ''1'' = Inl RuntimePanic
   \<and> GetOwnPosts \<lparr>Posts = Some []\<rparr> [] ''9223372036854775807'' ''1'' = Inl RuntimePanic"
  by (simp add: GetUserPosts_def GetNotifications_def GetOwnPosts_def slice_def wrap64_def
      Atoi_def ParseInt_def ParseUint_def is_digit_def maxUint64_def Let_def)

text \<open>
  C1 (amended). Let the query carry an offset and a limit, both at least 0, whose sum fits
  a 64-bit integer. \<open>GetOwnPosts\<close> returns the page \<open>[offset, offset + limit)\<close> of the
  current user's visible posts, in the order of the map visit, with the total of that
  collection. \<open>GetUserPosts\<close> does the same for the user's visible posts when there is
  at least one, and answers NotFound when there is none. \<open>GetNotifications\<close> does the
  same for the notifications when the offset does not exceed their number. The page has
  length \<open>clamp(limit, 0, max(0, N - offset))\<close> and is empty when the offset exceeds
  \<open>N\<close>.
\<close>

theorem pagination_pages:
  assumes "Atoi offsetStr = (offset, None)" and "Atoi limitStr = (limit, None)"
    and "0 \<le> offset" and "0 \<le> limit" and "offset + limit < 2 ^ 63"
  shows "GetOwnPosts h ord offsetStr limitStr =
           Inr (spec_page (filter (\<lambda>p. UserID p = 1 \<and> \<not> IsDeleted p) (map snd ord)) offset limit,
                int (length (filter (\<lambda>p. UserID p = 1 \<and> \<not> IsDeleted p) (map snd ord))))
       \<and> (filter (\<lambda>p. UserID p = fst (Atoi idStr) \<and> \<not> IsDeleted p) (map snd ord) \<noteq> [] \<longrightarrow>
            GetUserPosts h ord idStr offsetStr limitStr =
              Inr (spec_page (filter (\<lambda>p. UserID p = fst (Atoi idStr) \<and> \<not> IsDeleted p) (map snd ord)) offset limit,
                   int (length (filter (\<lambda>p. UserID p = fst (Atoi idStr) \<and> \<not> IsDeleted p) (map snd ord)))))
       \<and> (filter (\<lambda>p. UserID p = fst (Atoi idStr) \<and> \<not> IsDeleted p) (map snd ord) = [] \<longrightarrow>
            GetUserPosts h ord idStr offsetStr limitStr = Inl NotFound)
       \<and> (offset \<le> int (length (notifications nh)) \<longrightarrow>
            GetNotifications nh offsetStr limitStr =
              Inr (spec_page (notifications nh) offset limit, int (length (notifications nh))))
       \<and> (\<forall>xs :: Post list. int (length (spec_page xs offset limit)) = clamp limit 0 (max 0 (int (length xs) - offset))
               \<and> (int (length xs) < offset \<longrightarrow> spec_page xs offset limit = []))"
proof -
  have w: "wrap64 (offset + limit) = offset + limit"
    using assms(3-5) by (intro wrap64_id) simp_all
  note sp = slice_page [OF assms(3,4)]
  have own: "GetOwnPosts h ord offsetStr limitStr =
           Inr (spec_page (filter (\<lambda>p. UserID p = 1 \<and> \<not> IsDeleted p) (map snd ord)) offset limit,
                int (length (filter (\<lambda>p. UserID p = 1 \<and> \<not> IsDeleted p) (map snd ord))))"
    unfolding GetOwnPosts_def Let_def assms(1,2) fst_conv w sp by simp
  have usr: "GetUserPosts h ord idStr offsetStr limitStr =
              Inr (spec_page (filter (\<lambda>p. UserID p = fst (Atoi idStr) \<and> \<not> IsDeleted p) (map snd ord)) offset limit,
                   int (length (filter (\<lambda>p. UserID p = fst (Atoi idStr) \<and> \<not> IsDeleted p) (map snd ord))))"
    if "filter (\<lambda>p. UserID p = fst (Atoi idStr) \<and> \<not> IsDeleted p) (map snd ord) \<noteq> []"
    unfolding GetUserPosts_def Let_def assms(1,2) fst_conv w sp using that by (simp add: filter_map)
  have usr0: "GetUserPosts h ord idStr offsetStr limitStr = Inl NotFound"
    if "filter (\<lambda>p. UserID p = fst (Atoi idStr) \<and> \<not> IsDeleted p) (map snd ord) = []"
    unfolding GetUserPosts_def Let_def using that by (simp add: filter_map)
  have ntf: "GetNotifications nh offsetStr limitStr =
              Inr (spec_page (notifications nh) offset limit, int (length (notifications nh)))"
    if "offset \<le> int (length (notifications nh))"
  proof -
    from that have "offset = (if offset > int (length (notifications nh))
                              then int (length (notifications nh)) else offset)" by simp
    then have "slice (notifications nh) offset
        (if offset + limit > int (length (notifications nh)) then int (length (notifications nh))
         else offset + limit) = Inr (spec_page (notifications nh) offset limit)"
      using sp [of "notifications nh"] by simp
    then show ?thesis
      by (simp add: GetNotifications_def Let_def assms(1,2) w split: if_splits)
  qed
  have len: "int (length (spec_page xs offset limit)) = clamp limit 0 (max 0 (int (length xs) - offset))
               \<and> (int (length xs) < offset \<longrightarrow> spec_page xs offset limit = [])" for xs :: "Post list"
    using spec_page_length [OF assms(3,4)] spec_page_beyond by blast
  from own usr usr0 ntf len show ?thesis by blast
qed

theorem pagination_pages_witness:
  "Atoi ''1'' = (1, None) \<and> Atoi ''2'' = (2, None) \<and> (0::int) \<le> 1 \<and> (0::int) \<le> 2 \<and> (1::int) + 2 < 2 ^ 63
   \<and> GetOwnPosts \<lparr>Posts = Some [(1, \<lparr>PostID = 1, UserID = 1, Content = ''a'', CreatedAt = [], MediaIDs = None, IsDeleted = False\<rparr>), (2, \<lparr>PostID = 2, UserID = 1, Content = ''b'', CreatedAt = [], MediaIDs = None, IsDeleted = False\<rparr>), (3, \<lparr>PostID = 3, UserID = 1, Content = ''c'', CreatedAt = [], MediaIDs = None, IsDeleted = False\<rparr>), (4, \<lparr>PostID = 4, UserID = 2, Content = ''d'', CreatedAt = [], MediaIDs = None, IsDeleted = False\<rparr>)]\<rparr> [(1, \<lparr>PostID = 1, UserID = 1, Content = ''a'', CreatedAt = [], MediaIDs = None, IsDeleted = False\<rparr>), (2, \<lparr>PostID = 2, UserID = 1, Content = ''b'', CreatedAt = [], MediaIDs = None, IsDeleted = False\<rparr>), (3, \<lparr>PostID = 3, UserID = 1, Content = ''c'', CreatedAt = [], MediaIDs = None, IsDeleted = False\<rparr>), (4, \<lparr>PostID = 4, UserID = 2, Content = ''d'', CreatedAt = [], MediaIDs = None, IsDeleted = False\<rparr>)] ''1'' ''2'' = Inr ([\<lparr>PostID = 2, UserID = 1, Content = ''b'', CreatedAt = [], MediaIDs = None, IsDeleted = False\<rparr>, \<lparr>PostID = 3, UserID = 1, Content = ''c'', CreatedAt = [], MediaIDs = None, IsDeleted = False\<rparr>], 3)
   \<and> GetUserPosts \<lparr>Posts = Some [(1, \<lparr>PostID = 1, UserID = 1, Content = ''a'', CreatedAt = [], MediaIDs = None, IsDeleted = False\<rparr>), (2, \<lparr>PostID = 2, UserID = 1, Content = ''b'', CreatedAt = [], MediaIDs = None, IsDeleted = False\<rparr>), (3, \<lparr>PostID = 3, UserID = 1, Content = ''c'', CreatedAt = [], MediaIDs = None, IsDeleted = False\<rparr>), (4, \<lparr>PostID = 4, UserID = 2, Content = ''d'', CreatedAt = [], MediaIDs = None, IsDeleted = False\<rparr>)]\<rparr> [(1, \<lparr>PostID = 1, UserID = 1, Content = ''a'', CreatedAt = [], MediaIDs = None, IsDeleted = False\<rparr>), (2, \<lparr>PostID = 2, UserID = 1, Content = ''b'', CreatedAt = [], MediaIDs = None, IsDeleted = False\<rparr>), (3, \<lparr>PostID = 3, UserID = 1, Content = ''c'', CreatedAt = [], MediaIDs = None, IsDeleted = False\<rparr>), (4, \<lparr>PostID = 4, UserID = 2, Content = ''d'', CreatedAt = [], MediaIDs = None, IsDeleted = False\<rparr>)] ''2'' ''1'' ''2'' = Inr ([], 1)
   \<and> GetNotifications \<lparr>notifications = [\<lparr>notif_ID = 1, notif_Type = ''like'', notif_SourceUserID = 2, notif_PostID = 1, notif_Read = False, notif_CreatedAt = []\<rparr>, \<lparr>notif_ID = 2, notif_Type = ''like'', notif_SourceUserID = 2, notif_PostID = 1, notif_Read = False, notif_CreatedAt = []\<rparr>]\<rparr> ''1'' ''2'' = Inr ([\<lparr>notif_ID = 2, notif_Type = ''like'', notif_SourceUserID = 2, notif_PostID = 1, notif_Read = False, notif_CreatedAt = []\<rparr>], 2)
   \<and> int (length (spec_page [\<lparr>PostID = 1, UserID = 1, Content = ''a'', CreatedAt = [], MediaIDs = None, IsDeleted = False\<rparr>, \<lparr>PostID = 2, UserID = 1, Content = ''b'', CreatedAt = [], MediaIDs = None, IsDeleted = False\<rparr>, \<lparr>PostID = 3, UserID = 1, Content = ''c'', CreatedAt = [], MediaIDs = None, IsDeleted = False\<rparr>] 1 2)) = clamp 2 0 (max 0 (3 - 1))"
proof -
  have h3: "(0::int) \<le> 1" and h4: "(0::int) \<le> 2" and h5: "(1::int) + 2 < 2 ^ 63" by simp_all
  note t = pagination_pages [OF Atoi_1 Atoi_2 h3 h4 h5, of "\<lparr>Posts = Some [(1, \<lparr>PostID = 1, UserID = 1, Content = ''a'', CreatedAt = [], MediaIDs = None, IsDeleted = False\<rparr>), (2, \<lparr>PostID = 2, UserID = 1, Content = ''b'', CreatedAt = [], MediaIDs = None, IsDeleted = False\<rparr>), (3, \<lparr>PostID = 3, UserID = 1, Content = ''c'', CreatedAt = [], MediaIDs = None, IsDeleted = False\<rparr>), (4, \<lparr>PostID = 4, UserID = 2, Content = ''d'', CreatedAt = [], MediaIDs = None, IsDeleted = False\<rparr>)]\<rparr>" "[(1, \<lparr>PostID = 1, UserID = 1, Content = ''a'', CreatedAt = [], MediaIDs = None, IsDeleted = False\<rparr>), (2, \<lparr>PostID = 2, UserID = 1, Content = ''b'', CreatedAt = [], MediaIDs = None, IsDeleted = False\<rparr>), (3, \<lparr>PostID = 3, UserID = 1, Content = ''c'', CreatedAt = [], MediaIDs = None, IsDeleted = False\<rparr>), (4, \<lparr>PostID = 4, UserID = 2, Content = ''d'', CreatedAt = [], MediaIDs = None, IsDeleted = False\<rparr>)]" "''2''" "\<lparr>notifications = [\<lparr>notif_ID = 1, notif_Type = ''like'', notif_SourceUserID = 2, notif_PostID = 1, notif_Read = False, notif_CreatedAt = []\<rparr>, \<lparr>notif_ID = 2, notif_Type = ''like'', notif_SourceUserID = 2, notif_PostID = 1, notif_Read = False, notif_CreatedAt = []\<rparr>]\<rparr>"]
  from t have own: "GetOwnPosts \<lparr>Posts = Some [(1, \<lparr>PostID = 1, UserID = 1, Content = ''a'', CreatedAt = [], MediaIDs = None, IsDeleted = False\<rparr>), (2, \<lparr>PostID = 2, UserID = 1, Content = ''b'', CreatedAt = [], MediaIDs = None, IsDeleted = False\<rparr>), (3, \<lparr>PostID = 3, UserID = 1, Content = ''c'', CreatedAt = [], MediaIDs = None, IsDeleted = False\<rparr>), (4, \<lparr>PostID = 4, UserID = 2, Content = ''d'', CreatedAt = [], MediaIDs = None, IsDeleted = False\<rparr>)]\<rparr> [(1, \<lparr>PostID = 1, UserID = 1, Content = ''a'', CreatedAt = [], MediaIDs = None, IsDeleted = False\<rparr>), (2, \<lparr>PostID = 2, UserID = 1, Content = ''b'', CreatedAt = [], MediaIDs = None, IsDeleted = False\<rparr>), (3, \<lparr>PostID = 3, UserID = 1, Content = ''c'', CreatedAt = [], MediaIDs = None, IsDeleted = False\<rparr>), (4, \<lparr>PostID = 4, UserID = 2, Content = ''d'', CreatedAt = [], MediaIDs = None, IsDeleted = False\<rparr>)] ''1'' ''2'' = Inr ([\<lparr>PostID = 2, UserID = 1, Content = ''b'', CreatedAt = [], MediaIDs = None, IsDeleted = False\<rparr>, \<lparr>PostID = 3, UserID = 1, Content = ''c'', CreatedAt = [], MediaIDs = None, IsDeleted = False\<rparr>], 3)"
    by (simp add: spec_page_def)
  from t have usr: "GetUserPosts \<lparr>Posts = Some [(1, \<lparr>PostID = 1, UserID = 1, Content = ''a'', CreatedAt = [], MediaIDs = None, IsDeleted = False\<rparr>), (2, \<lparr>PostID = 2, UserID = 1, Content = ''b'', CreatedAt = [], MediaIDs = None, IsDeleted = False\<rparr>), (3, \<lparr>PostID = 3, UserID = 1, Content = ''c'', CreatedAt = [], MediaIDs = None, IsDeleted = False\<rparr>), (4, \<lparr>PostID = 4, UserID = 2, Content = ''d'', CreatedAt = [], MediaIDs = None, IsDeleted = False\<rparr>)]\<rparr> [(1, \<lparr>PostID = 1, UserID = 1, Content = ''a'', CreatedAt = [], MediaIDs = None, IsDeleted = False\<rparr>), (2, \<lparr>PostID = 2, UserID = 1, Content = ''b'', CreatedAt = [], MediaIDs = None, IsDeleted = False\<rparr>), (3, \<lparr>PostID = 3, UserID = 1, Content = ''c'', CreatedAt = [], MediaIDs = None, IsDeleted = False\<rparr>), (4, \<lparr>PostID = 4, UserID = 2, Content = ''d'', CreatedAt = [], MediaIDs = None, IsDeleted = False\<rparr>)] ''2'' ''1'' ''2'' = Inr ([], 1)"
    by (simp add: spec_page_def Atoi_2)
  from t have ntf: "GetNotifications \<lparr>notifications = [\<lparr>notif_ID = 1, notif_Type = ''like'', notif_SourceUserID = 2, notif_PostID = 1, notif_Read = False, notif_CreatedAt = []\<rparr>, \<lparr>notif_ID = 2, notif_Type = ''like'', notif_SourceUserID = 2, notif_PostID = 1, notif_Read = False, notif_CreatedAt = []\<rparr>]\<rparr> ''1'' ''2'' = Inr ([\<lparr>notif_ID = 2, notif_Type = ''like'', notif_SourceUserID = 2, notif_PostID = 1, notif_Read = False, notif_CreatedAt = []\<rparr>], 2)"
    by (simp add: spec_page_def)
  from t [THEN conjunct2, THEN conjunct2, THEN conjunct2, THEN conjunct2, THEN spec, of "[\<lparr>PostID = 1, UserID = 1, Content = ''a'', CreatedAt = [], MediaIDs = None, IsDeleted = False\<rparr>, \<lparr>PostID = 2, UserID = 1, Content = ''b'', CreatedAt = [], MediaIDs = None, IsDeleted = False\<rparr>, \<lparr>PostID = 3, UserID = 1, Content = ''c'', CreatedAt = [], MediaIDs = None, IsDeleted = False\<rparr>]"]
  have len: "int (length (spec_page [\<lparr>PostID = 1, UserID = 1, Content = ''a'', CreatedAt = [], MediaIDs = None, IsDeleted = False\<rparr>, \<lparr>PostID = 2, UserID = 1, Content = ''b'', CreatedAt = [], MediaIDs = None, IsDeleted = False\<rparr>, \<lparr>PostID = 3, UserID = 1, Content = ''c'', CreatedAt = [], MediaIDs = None, IsDeleted = False\<rparr>] 1 2)) = clamp 2 0 (max 0 (3 - 1))"
    by simp
  from Atoi_1 Atoi_2 h3 h4 h5 own usr ntf len show ?thesis by blast
qed

subsection \<open>Query parameters that do not parse\<close>



lemma Atoi_0: "Atoi ''0'' = (0, None)"
  by (simp add: Atoi_def ParseInt_def ParseUint_def is_digit_def maxUint64_def)

lemma Atoi_10: "Atoi ''10'' = (10, None)"
  by (simp add: Atoi_def ParseInt_def ParseUint_def is_digit_def maxUint64_def)

lemma Atoi_abc: "Atoi ''abc'' = (0, Some ErrSyntax)"
  by (simp add: Atoi_def ParseInt_def ParseUint_def is_digit_def maxUint64_def)




subsection \<open>Reactions\<close>

lemma ReactToPost_ok:
  assumes "reactions h = Some m" and "TrimSpace t \<noteq> []"
  shows "snd (ReactToPost TrimSpace h postID (Some t)) = Inr ''Reaction added''"
    and "reactions (fst (ReactToPost TrimSpace h postID (Some t))) \<noteq> None"
    and "reaction_of (fst (ReactToPost TrimSpace h postID (Some t))) postID ''user1'' = Some t"
  using assms by (simp_all add: ReactToPost_def reaction_of_def Let_def split: option.splits)

text \<open>
  On a handler whose map is allocated, as \<open>NewReactionsHandler\<close> builds it, two
  reactions to one post whose types are not blank both succeed, and afterwards the
  reaction stored for the post and the user is the second type: one value per key, the
  last write. On every handler, \<open>RemoveReaction\<close> on a post for which the user has no
  stored reaction fails with NotFound and leaves the handler as it was.
\<close>

lemma reaction_last_write_wins:
  "(reactions h \<noteq> None \<and> TrimSpace t1 \<noteq> [] \<and> TrimSpace t2 \<noteq> [] \<longrightarrow>
      snd (ReactToPost TrimSpace h postID (Some t1)) = Inr ''Reaction added''
    \<and> snd (ReactToPost TrimSpace (fst (ReactToPost TrimSpace h postID (Some t1))) postID (Some t2))
        = Inr ''Reaction added''
    \<and> reaction_of (fst (ReactToPost TrimSpace (fst (ReactToPost TrimSpace h postID (Some t1))) postID (Some t2)))
        postID ''user1'' = Some t2)
   \<and> (reaction_of h postID ''user1'' = None \<longrightarrow> RemoveReaction h postID = (h, Inl NotFound))"
proof -
  have a: "snd (ReactToPost TrimSpace h postID (Some t1)) = Inr ''Reaction added''
    \<and> snd (ReactToPost TrimSpace (fst (ReactToPost TrimSpace h postID (Some t1))) postID (Some t2))
        = Inr ''Reaction added''
    \<and> reaction_of (fst (ReactToPost TrimSpace (fst (ReactToPost TrimSpace h postID (Some t1))) postID (Some t2)))
        postID ''user1'' = Some t2"
    if "reactions h \<noteq> None" "TrimSpace t1 \<noteq> []" "TrimSpace t2 \<noteq> []"
  proof -
    from that(1) obtain m where m: "reactions h = Some m" by auto
    let ?h1 = "fst (ReactToPost TrimSpace h postID (Some t1))"
    note r1 = ReactToPost_ok [where TrimSpace = TrimSpace and t = t1 and postID = postID, OF m that(2)]
    from r1(2) obtain m1 where m1: "reactions ?h1 = Some m1" by auto
    note r2 = ReactToPost_ok [where TrimSpace = TrimSpace and t = t2 and postID = postID, OF m1 that(3)]
    from r1(1) r2(1) r2(3) show ?thesis by simp
  qed
  have b: "RemoveReaction h postID = (h, Inl NotFound)" if "reaction_of h postID ''user1'' = None"
    using that by (simp add: RemoveReaction_def reaction_of_def split: option.splits)
  from a b show ?thesis by blast
qed

lemma reaction_last_write_wins_on_new_handler:
  "reactions NewReactionsHandler \<noteq> None
   \<and> snd (ReactToPost (\<lambda>s. s) (fst (ReactToPost (\<lambda>s. s) NewReactionsHandler ''7'' (Some ''like''))) ''7'' (Some ''love''))
        = Inr ''Reaction added''
   \<and> reaction_of (fst (ReactToPost (\<lambda>s. s) (fst (ReactToPost (\<lambda>s. s) NewReactionsHandler ''7'' (Some ''like''))) ''7'' (Some ''love'')))
        ''7'' ''user1'' = Some ''love''
   \<and> reaction_of NewReactionsHandler ''7'' ''user1'' = None
   \<and> RemoveReaction NewReactionsHandler ''7'' = (NewReactionsHandler, Inl NotFound)"
proof -
  have h1: "reactions NewReactionsHandler \<noteq> None" by (simp add: NewReactionsHandler_def)
  have h2: "(\<lambda>s::string. s) ''like'' \<noteq> []" and h3: "(\<lambda>s::string. s) ''love'' \<noteq> []" by simp_all
  have h4: "reaction_of NewReactionsHandler ''7'' ''user1'' = None"
    by (simp add: NewReactionsHandler_def reaction_of_def)
  note t = reaction_last_write_wins [of NewReactionsHandler "\<lambda>s. s" "''like''" "''love''" "''7''"]
  from t [THEN conjunct1] h1 h2 h3 t [THEN conjunct2] h4 show ?thesis by blast
qed

text \<open>
  C7 (the code at a failing input). The claim has two reactions to a post leave the
  second type stored for the post and the user. The handler the program serves is built
  without its map: the first reaction to post 7, of type \<open>like\<close>, panics at the write
  to the nil map when the type is not blank, the second, of type \<open>love\<close>, does the
  same, and no reaction is stored.
\<close>

theorem reactions_lost_on_served_handler:
  "ReactToPost TrimSpace main_reactHandler ''7'' (Some ''like'') =
     (main_reactHandler, if TrimSpace ''like'' = [] then Inl BadRequest else Inl RuntimePanic)
   \<and> ReactToPost TrimSpace (fst (ReactToPost TrimSpace main_reactHandler ''7'' (Some ''like''))) ''7'' (Some ''love'') =
     (main_reactHandler, if TrimSpace ''love'' = [] then Inl BadRequest else Inl RuntimePanic)
   \<and> reaction_of (fst (ReactToPost TrimSpace
         (fst (ReactToPost TrimSpace main_reactHandler ''7'' (Some ''like''))) ''7'' (Some ''love'')))
       ''7'' ''user1'' = None"
  by (simp add: ReactToPost_def main_reactHandler_def reaction_of_def)

subsection \<open>Media upload\<close>

text \<open>
  C9 (as stated, refuted). The claim gives BadRequest to every request whose file part is
  missing and NotFound to every request whose \<open>post_id\<close> is not a positive number. A
  request with a valid type, \<open>post_id\<close> 0 and no file part is answered NotFound; a
  request with an invalid type and a non-numeric \<open>post_id\<close> is answered BadRequest.
\<close>

theorem upload_errors_have_an_order:
  "UploadMedia (\<lambda>s. s) (\<lambda>d f. d @ ''/'' @ f) NewMediaHandler
     \<lparr>form_ok = True, form_type = ''image'', form_post_id = ''0'', form_file = None, create_ok = True\<rparr>
     = (NewMediaHandler, Inl NotFound)
   \<and> UploadMedia (\<lambda>s. s) (\<lambda>d f. d @ ''/'' @ f) NewMediaHandler
     \<lparr>form_ok = True, form_type = ''audio'', form_post_id = ''abc'', form_file = Some ''a.png'', create_ok = True\<rparr>
     = (NewMediaHandler, Inl BadRequest)"
  by (simp add: UploadMedia_def Atoi_0 Atoi_abc)

text \<open>
  C9 (amended). \<open>UploadMedia\<close> checks in this order, and the first check that fails
  decides the answer: the multipart form parses (else BadRequest); the type is
  \<open>image\<close> or \<open>video\<close> (else BadRequest); \<open>post_id\<close> is numeric and strictly
  positive (else NotFound; that the post exists is not checked); the file part is present
  (else BadRequest); the destination file can be created (else InternalError). When all
  pass, a Media entry is appended whose id is the sequence number and whose location is
  \<open>./uploads\<close> joined with the sequence number, an underscore and the base name of the
  uploaded file; the sequence number is incremented and the entry's id is answered. In
  every failure case no Media entry is appended and the sequence number is unchanged.
\<close>

theorem upload_checks_in_order:
  "(\<not> form_ok r \<longrightarrow> UploadMedia Base Join h r = (h, Inl BadRequest))
   \<and> (form_type r \<noteq> ''image'' \<and> form_type r \<noteq> ''video'' \<longrightarrow>
         UploadMedia Base Join h r = (h, Inl BadRequest))
   \<and> (form_ok r \<and> (form_type r = ''image'' \<or> form_type r = ''video'')
        \<and> (snd (Atoi (form_post_id r)) \<noteq> None \<or> fst (Atoi (form_post_id r)) \<le> 0) \<longrightarrow>
         UploadMedia Base Join h r = (h, Inl NotFound))
   \<and> (form_ok r \<and> (form_type r = ''image'' \<or> form_type r = ''video'')
        \<and> snd (Atoi (form_post_id r)) = None \<and> 0 < fst (Atoi (form_post_id r))
        \<and> form_file r = None \<longrightarrow>
         UploadMedia Base Join h r = (h, Inl BadRequest))
   \<and> (form_ok r \<and> (form_type r = ''image'' \<or> form_type r = ''video'')
        \<and> snd (Atoi (form_post_id r)) = None \<and> 0 < fst (Atoi (form_post_id r))
        \<and> form_file r \<noteq> None \<and> \<not> create_ok r \<longrightarrow>
         UploadMedia Base Join h r = (h, Inl InternalError))
   \<and> (\<forall>name. form_ok r \<and> (form_type r = ''image'' \<or> form_type r = ''video'')
        \<and> snd (Atoi (form_post_id r)) = None \<and> 0 < fst (Atoi (form_post_id r))
        \<and> form_file r = Some name \<and> create_ok r \<longrightarrow>
         UploadMedia Base Join h r =
           (h\<lparr>medias := medias h @
                 [\<lparr>media_ID = nextID h, media_Type = form_type r,
                   media_PostID = fst (Atoi (form_post_id r)),
                   media_URL = Join ''./uploads'' (Itoa (nextID h) @ ''_'' @ Base name)\<rparr>],
               nextID := wrap64 (nextID h + 1)\<rparr>,
            Inr (nextID h)))
   \<and> (\<forall>e. snd (UploadMedia Base Join h r) = Inl e \<longrightarrow>
         medias (fst (UploadMedia Base Join h r)) = medias h
         \<and> nextID (fst (UploadMedia Base Join h r)) = nextID h)"
proof -
  have 1: "UploadMedia Base Join h r = (h, Inl BadRequest)" if "\<not> form_ok r"
    using that by (simp add: UploadMedia_def)
  have 2: "UploadMedia Base Join h r = (h, Inl BadRequest)"
    if "form_type r \<noteq> ''image'' \<and> form_type r \<noteq> ''video''"
    using that by (simp add: UploadMedia_def Let_def)
  have 3: "UploadMedia Base Join h r = (h, Inl NotFound)"
    if "form_ok r \<and> (form_type r = ''image'' \<or> form_type r = ''video'')
        \<and> (snd (Atoi (form_post_id r)) \<noteq> None \<or> fst (Atoi (form_post_id r)) \<le> 0)"
    using that by (auto simp: UploadMedia_def Let_def)
  have 4: "UploadMedia Base Join h r = (h, Inl BadRequest)"
    if "form_ok r \<and> (form_type r = ''image'' \<or> form_type r = ''video'')
        \<and> snd (Atoi (form_post_id r)) = None \<and> 0 < fst (Atoi (form_post_id r))
        \<and> form_file r = None"
    using that by (auto simp: UploadMedia_def Let_def)
  have 5: "UploadMedia Base Join h r = (h, Inl InternalError)"
    if "form_ok r \<and> (form_type r = ''image'' \<or> form_type r = ''video'')
        \<and> snd (Atoi (form_post_id r)) = None \<and> 0 < fst (Atoi (form_post_id r))
        \<and> form_file r \<noteq> None \<and> \<not> create_ok r"
    using that by (auto simp: UploadMedia_def Let_def)
  have 6: "UploadMedia Base Join h r =
           (h\<lparr>medias := medias h @
                 [\<lparr>media_ID = nextID h, media_Type = form_type r,
                   media_PostID = fst (Atoi (form_post_id r)),
                   media_URL = Join ''./uploads'' (Itoa (nextID h) @ ''_'' @ Base name)\<rparr>],
               nextID := wrap64 (nextID h + 1)\<rparr>,
            Inr (nextID h))"
    if "form_ok r \<and> (form_type r = ''image'' \<or> form_type r = ''video'')
        \<and> snd (Atoi (form_post_id r)) = None \<and> 0 < fst (Atoi (form_post_id r))
        \<and> form_file r = Some name \<and> create_ok r" for name
    using that by (auto simp: UploadMedia_def Let_def)
  have 7: "medias (fst (UploadMedia Base Join h r)) = medias h
         \<and> nextID (fst (UploadMedia Base Join h r)) = nextID h"
    if "snd (UploadMedia Base Join h r) = Inl e" for e
    using that by (auto simp: UploadMedia_def Let_def split: if_splits option.splits)
  from 1 2 3 4 5 6 7 show ?thesis by blast
qed


lemma Itoa_1: "Itoa 1 = ''1''"
  by code_simp

theorem upload_checks_in_order_witness:
  "UploadMedia (\<lambda>s. s) (\<lambda>d f. d @ ''/'' @ f) NewMediaHandler \<lparr>form_ok = True, form_type = ''video'', form_post_id = ''0'', form_file = Some ''a.png'', create_ok = True\<rparr> = (NewMediaHandler, Inl NotFound)
   \<and> UploadMedia (\<lambda>s. s) (\<lambda>d f. d @ ''/'' @ f) NewMediaHandler \<lparr>form_ok = True, form_type = ''image'', form_post_id = ''1'', form_file = Some ''a.png'', create_ok = True\<rparr> =
       (\<lparr>nextID = 2, medias = [\<lparr>media_ID = 1, media_Type = ''image'', media_PostID = 1,
                                  media_URL = ''./uploads/1_a.png''\<rparr>]\<rparr>, Inr 1)"
proof -
  note t0 = upload_checks_in_order [where Base = "(\<lambda>s. s)" and Join = "(\<lambda>d f. d @ ''/'' @ f)" and h = NewMediaHandler
      and r = "\<lparr>form_ok = True, form_type = ''video'', form_post_id = ''0'', form_file = Some ''a.png'', create_ok = True\<rparr>", THEN conjunct2, THEN conjunct2, THEN conjunct1]
  note t1 = upload_checks_in_order [where Base = "(\<lambda>s. s)" and Join = "(\<lambda>d f. d @ ''/'' @ f)" and h = NewMediaHandler
      and r = "\<lparr>form_ok = True, form_type = ''image'', form_post_id = ''1'', form_file = Some ''a.png'', create_ok = True\<rparr>", THEN conjunct2, THEN conjunct2, THEN conjunct2, THEN conjunct2, THEN conjunct2, THEN conjunct1, THEN spec, of "''a.png''"]
  from t0 have a: "UploadMedia (\<lambda>s. s) (\<lambda>d f. d @ ''/'' @ f) NewMediaHandler \<lparr>form_ok = True, form_type = ''video'', form_post_id = ''0'', form_file = Some ''a.png'', create_ok = True\<rparr> = (NewMediaHandler, Inl NotFound)"
    by (simp add: Atoi_0)
  from t1 have b: "UploadMedia (\<lambda>s. s) (\<lambda>d f. d @ ''/'' @ f) NewMediaHandler \<lparr>form_ok = True, form_type = ''image'', form_post_id = ''1'', form_file = Some ''a.png'', create_ok = True\<rparr> =
       (\<lparr>nextID = 2, medias = [\<lparr>media_ID = 1, media_Type = ''image'', media_PostID = 1,
                                  media_URL = ''./uploads/1_a.png''\<rparr>]\<rparr>, Inr 1)"
    by (simp add: Atoi_1 Itoa_1 NewMediaHandler_def wrap64_def)
  from a b show ?thesis ..
qed

subsection \<open>Follow graph\<close>

lemma remove_first_None: "remove_first P xs = None \<longleftrightarrow> (\<forall>x \<in> set xs. \<not> P x)"
  by (induction xs) (auto split: option.splits)

lemma remove_first_distinct:
  "remove_first (\<lambda>u. f u = a) xs = Some ys \<Longrightarrow> distinct (map f xs) \<Longrightarrow>
   distinct (map f ys) \<and> f ` set ys = f ` set xs - {a}"
proof (induction xs arbitrary: ys)
  case Nil
  then show ?case by simp
next
  case (Cons x xs)
  show ?case
  proof (cases "f x = a")
    case True
    with Cons.prems show ?thesis by auto
  next
    case False
    with Cons.prems(1) obtain zs where zs: "remove_first (\<lambda>u. f u = a) xs = Some zs" "ys = x # zs"
      by (auto split: option.splits)
    from Cons.prems(2) have "distinct (map f xs)" by simp
    from Cons.IH [OF zs(1) this] have ih: "distinct (map f zs)" "f ` set zs = f ` set xs - {a}"
      by blast+
    from Cons.prems(2) have "f x \<notin> f ` set xs" by simp
    with ih False zs(2) show ?thesis by auto
  qed
qed

lemma list_at_upd: "list_at (m(k \<mapsto> xs)) k' = (if k' = k then xs else list_at m k')"
  by (simp add: list_at_def)

lemma FollowUser_already:
  "fst (Atoi targetStr) \<in> follow_ids (following h) 1 \<Longrightarrow> FollowUser h targetStr = (h, Inl BadRequest)"
  by (auto simp: FollowUser_def follow_ids_def list_ex_iff Let_def image_iff)

lemma FollowUser_new:
  assumes "fst (Atoi targetStr) \<notin> follow_ids (following h) 1"
  shows "snd (FollowUser h targetStr) = Inr ''Followed''"
    and "list_at (following (fst (FollowUser h targetStr))) 1 =
           list_at (following h) 1 @ [\<lparr>follow_UserID = fst (Atoi targetStr),
              follow_Username = ''user'' @ Itoa (fst (Atoi targetStr)), follow_Avatar = []\<rparr>]"
    and "list_at (followers (fst (FollowUser h targetStr))) k =
           (if k = fst (Atoi targetStr)
            then list_at (followers h) k @ [\<lparr>follow_UserID = 1, follow_Username = ''user1'', follow_Avatar = []\<rparr>]
            else list_at (followers h) k)"
proof -
  from assms have n: "\<not> list_ex (\<lambda>u. follow_UserID u = fst (Atoi targetStr)) (list_at (following h) 1)"
    by (auto simp: follow_ids_def list_ex_iff image_iff)
  show "snd (FollowUser h targetStr) = Inr ''Followed''"
    using n by (simp add: FollowUser_def Let_def)
  show "list_at (following (fst (FollowUser h targetStr))) 1 =
           list_at (following h) 1 @ [\<lparr>follow_UserID = fst (Atoi targetStr),
              follow_Username = ''user'' @ Itoa (fst (Atoi targetStr)), follow_Avatar = []\<rparr>]"
    using n by (simp add: FollowUser_def Let_def list_at_upd)
  show "list_at (followers (fst (FollowUser h targetStr))) k =
           (if k = fst (Atoi targetStr)
            then list_at (followers h) k @ [\<lparr>follow_UserID = 1, follow_Username = ''user1'', follow_Avatar = []\<rparr>]
            else list_at (followers h) k)"
    using n by (simp add: FollowUser_def Let_def list_at_upd)
qed

lemma UnfollowUser_absent:
  "fst (Atoi targetStr) \<notin> follow_ids (following h) 1 \<Longrightarrow> UnfollowUser h targetStr = (h, Inl Forbidden)"
proof -
  assume "fst (Atoi targetStr) \<notin> follow_ids (following h) 1"
  then have "remove_first (\<lambda>u. follow_UserID u = fst (Atoi targetStr)) (list_at (following h) 1) = None"
    by (auto simp: remove_first_None follow_ids_def image_iff)
  then show ?thesis by (simp add: UnfollowUser_def Let_def)
qed

lemma UnfollowUser_present:
  assumes "fst (Atoi targetStr) \<in> follow_ids (following h) 1"
  obtains rest where
    "remove_first (\<lambda>u. follow_UserID u = fst (Atoi targetStr)) (list_at (following h) 1) = Some rest"
    and "snd (UnfollowUser h targetStr) = Inr ''Unfollowed''"
    and "list_at (following (fst (UnfollowUser h targetStr))) 1 = rest"
    and "\<And>k. list_at (followers (fst (UnfollowUser h targetStr))) k =
           (if k = fst (Atoi targetStr)
            then (case remove_first (\<lambda>u. follow_UserID u = 1) (list_at (followers h) k) of
                    None \<Rightarrow> list_at (followers h) k | Some rest2 \<Rightarrow> rest2)
            else list_at (followers h) k)"
proof -
  from assms have "remove_first (\<lambda>u. follow_UserID u = fst (Atoi targetStr)) (list_at (following h) 1) \<noteq> None"
    by (auto simp: remove_first_None follow_ids_def image_iff)
  then obtain rest where
    r: "remove_first (\<lambda>u. follow_UserID u = fst (Atoi targetStr)) (list_at (following h) 1) = Some rest"
    by auto
  have 1: "snd (UnfollowUser h targetStr) = Inr ''Unfollowed''"
    using r by (simp add: UnfollowUser_def Let_def)
  have 2: "list_at (following (fst (UnfollowUser h targetStr))) 1 = rest"
    using r by (simp add: UnfollowUser_def Let_def list_at_upd split: option.splits)
  have 3: "list_at (followers (fst (UnfollowUser h targetStr))) k =
           (if k = fst (Atoi targetStr)
            then (case remove_first (\<lambda>u. follow_UserID u = 1) (list_at (followers h) k) of
                    None \<Rightarrow> list_at (followers h) k | Some rest2 \<Rightarrow> rest2)
            else list_at (followers h) k)" for k
    using r by (simp add: UnfollowUser_def Let_def list_at_upd split: option.splits)
  from r 1 2 3 show ?thesis by (rule that)
qed

lemma follows_inv_FollowUser:
  assumes "follows_inv h"
  shows "follows_inv (fst (FollowUser h targetStr))"
proof (cases "fst (Atoi targetStr) \<in> follow_ids (following h) 1")
  case True
  then show ?thesis using assms by (simp add: FollowUser_already)
next
  case False
  let ?t = "fst (Atoi targetStr)"
  let ?h' = "fst (FollowUser h targetStr)"
  note n = FollowUser_new [OF False]
  from assms have a: "distinct (map follow_UserID (list_at (following h) 1))"
    and b: "\<And>k. distinct (map follow_UserID (list_at (followers h) k))"
    and c: "\<And>k. 1 \<in> follow_ids (followers h) k \<Longrightarrow> k \<in> follow_ids (following h) 1"
    by (auto simp: follows_inv_def)
  have ids: "follow_ids (following ?h') 1 = insert ?t (follow_ids (following h) 1)"
    by (simp add: follow_ids_def n(2))
  have a': "distinct (map follow_UserID (list_at (following ?h') 1))"
    using a False by (simp add: n(2) follow_ids_def)
  have "1 \<notin> follow_ids (followers h) ?t" using c False by blast
  then have b': "distinct (map follow_UserID (list_at (followers ?h') k))" for k
    using b [of k] by (auto simp: n(3) follow_ids_def)
  have c': "k \<in> follow_ids (following ?h') 1" if "1 \<in> follow_ids (followers ?h') k" for k
  proof (cases "k = ?t")
    case True
    then show ?thesis by (simp add: ids)
  next
    case F: False
    with that have "1 \<in> follow_ids (followers h) k" by (simp add: follow_ids_def n(3))
    from c [OF this] show ?thesis by (simp add: ids)
  qed
  from a' b' c' show ?thesis unfolding follows_inv_def by blast
qed

lemma follows_inv_UnfollowUser:
  assumes "follows_inv h"
  shows "follows_inv (fst (UnfollowUser h targetStr))"
    and "snd (UnfollowUser h targetStr) = Inr msg \<Longrightarrow>
           fst (Atoi targetStr) \<notin> follow_ids (following (fst (UnfollowUser h targetStr))) 1
         \<and> 1 \<notin> follow_ids (followers (fst (UnfollowUser h targetStr))) (fst (Atoi targetStr))"
proof -
  let ?t = "fst (Atoi targetStr)"
  let ?h' = "fst (UnfollowUser h targetStr)"
  from assms have a: "distinct (map follow_UserID (list_at (following h) 1))"
    and b: "\<And>k. distinct (map follow_UserID (list_at (followers h) k))"
    and c: "\<And>k. 1 \<in> follow_ids (followers h) k \<Longrightarrow> k \<in> follow_ids (following h) 1"
    by (auto simp: follows_inv_def)
  have "follows_inv ?h' \<and> (snd (UnfollowUser h targetStr) = Inr msg \<longrightarrow>
           ?t \<notin> follow_ids (following ?h') 1 \<and> 1 \<notin> follow_ids (followers ?h') ?t)"
  proof (cases "?t \<in> follow_ids (following h) 1")
    case False
    then show ?thesis using assms by (simp add: UnfollowUser_absent)
  next
    case True
    from UnfollowUser_present [OF True] obtain rest where
      r: "remove_first (\<lambda>u. follow_UserID u = ?t) (list_at (following h) 1) = Some rest"
      and fl: "list_at (following ?h') 1 = rest"
      and fr: "\<And>k. list_at (followers ?h') k =
           (if k = ?t
            then (case remove_first (\<lambda>u. follow_UserID u = 1) (list_at (followers h) k) of
                    None \<Rightarrow> list_at (followers h) k | Some rest2 \<Rightarrow> rest2)
            else list_at (followers h) k)"
      by metis
    from remove_first_distinct [OF r a]
    have a': "distinct (map follow_UserID rest)"
      and ids: "follow_UserID ` set rest = follow_ids (following h) 1 - {?t}"
      by (simp_all add: follow_ids_def)
    have gone: "1 \<notin> follow_ids (followers ?h') ?t"
    proof (cases "remove_first (\<lambda>u. follow_UserID u = 1) (list_at (followers h) ?t)")
      case None
      then have "\<forall>x \<in> set (list_at (followers h) ?t). follow_UserID x \<noteq> 1"
        by (simp add: remove_first_None)
      then show ?thesis using None by (auto simp: follow_ids_def fr)
    next
      case (Some rest2)
      from remove_first_distinct [OF Some b [of ?t]] show ?thesis
        using Some by (simp add: follow_ids_def fr)
    qed
    have b': "distinct (map follow_UserID (list_at (followers ?h') k))" for k
    proof (cases "k = ?t")
      case F: False
      then show ?thesis using b [of k] by (simp add: fr)
    next
      case T: True
      show ?thesis
      proof (cases "remove_first (\<lambda>u. follow_UserID u = 1) (list_at (followers h) ?t)")
        case None
        then show ?thesis using b [of ?t] T by (simp add: fr)
      next
        case (Some rest2)
        from remove_first_distinct [OF Some b [of ?t]] show ?thesis
          using Some T by (simp add: fr)
      qed
    qed
    have c': "k \<in> follow_ids (following ?h') 1" if "1 \<in> follow_ids (followers ?h') k" for k
    proof (cases "k = ?t")
      case T: True
      with that gone show ?thesis by simp
    next
      case F: False
      with that have "1 \<in> follow_ids (followers h) k" by (simp add: follow_ids_def fr)
      from c [OF this] F show ?thesis by (simp add: follow_ids_def fl ids)
    qed
    have inv': "follows_inv ?h'" unfolding follows_inv_def using a' b' c' by (simp add: fl)
    have "?t \<notin> follow_ids (following ?h') 1" by (simp add: follow_ids_def fl ids)
    with inv' gone show ?thesis by blast
  qed
  then show "follows_inv ?h'"
    and "snd (UnfollowUser h targetStr) = Inr msg \<Longrightarrow>
           ?t \<notin> follow_ids (following ?h') 1 \<and> 1 \<notin> follow_ids (followers ?h') ?t"
    by blast+
qed

lemma follows_inv_steps: "follows_inv h \<Longrightarrow> follows_inv (foldl follow_step h rs)"
proof (induction rs arbitrary: h)
  case Nil
  then show ?case by simp
next
  case (Cons r rs)
  have "follows_inv (follow_step h r)"
    using Cons.prems by (cases r) (simp_all add: follows_inv_FollowUser follows_inv_UnfollowUser(1))
  from Cons.IH [OF this] show ?case by simp
qed

lemma follows_inv_reachable: "follows_inv (follow_steps rs)"
  unfolding follow_steps_def
  by (rule follows_inv_steps) (simp add: follows_inv_def NewFollowsHandler_def list_at_def follow_ids_def)

text \<open>
  C5. In every state the handler reaches from \<open>NewFollowsHandler\<close> by follow and
  unfollow requests, with A the current user 1 and B the target: after a follow that
  succeeds, B is in A's following list and A is in B's followers list; after an unfollow
  that succeeds, B is in neither A's following list nor is A in B's followers list; a
  follow of a B already in A's following list fails with BadRequest and an unfollow of a
  B not in it fails with Forbidden, each leaving both maps as they were.
\<close>

theorem follow_symmetry:
  "(snd (FollowUser (follow_steps rs) targetStr) = Inr msg \<longrightarrow>
      fst (Atoi targetStr) \<in> follow_ids (following (fst (FollowUser (follow_steps rs) targetStr))) 1
    \<and> 1 \<in> follow_ids (followers (fst (FollowUser (follow_steps rs) targetStr))) (fst (Atoi targetStr)))
   \<and> (snd (UnfollowUser (follow_steps rs) targetStr) = Inr msg \<longrightarrow>
      fst (Atoi targetStr) \<notin> follow_ids (following (fst (UnfollowUser (follow_steps rs) targetStr))) 1
    \<and> 1 \<notin> follow_ids (followers (fst (UnfollowUser (follow_steps rs) targetStr))) (fst (Atoi targetStr)))
   \<and> (fst (Atoi targetStr) \<in> follow_ids (following (follow_steps rs)) 1 \<longrightarrow>
      FollowUser (follow_steps rs) targetStr = (follow_steps rs, Inl BadRequest))
   \<and> (fst (Atoi targetStr) \<notin> follow_ids (following (follow_steps rs)) 1 \<longrightarrow>
      UnfollowUser (follow_steps rs) targetStr = (follow_steps rs, Inl Forbidden))"
proof -
  let ?h = "follow_steps rs"
  let ?t = "fst (Atoi targetStr)"
  have 1: "?t \<in> follow_ids (following (fst (FollowUser ?h targetStr))) 1
    \<and> 1 \<in> follow_ids (followers (fst (FollowUser ?h targetStr))) ?t"
    if "snd (FollowUser ?h targetStr) = Inr msg"
  proof -
    from that have "?t \<notin> follow_ids (following ?h) 1"
      using FollowUser_already [of targetStr ?h] by auto
    from FollowUser_new(2,3) [OF this] show ?thesis by (simp add: follow_ids_def)
  qed
  note 2 = follows_inv_UnfollowUser(2) [OF follows_inv_reachable, of rs targetStr msg]
  from 1 2 FollowUser_already [of targetStr ?h] UnfollowUser_absent [of targetStr ?h]
  show ?thesis by blast
qed

lemma Atoi_3: "Atoi ''3'' = (3, None)"
  by (simp add: Atoi_def ParseInt_def ParseUint_def is_digit_def maxUint64_def)

theorem follow_symmetry_witness:
  "snd (FollowUser (follow_steps [ReqFollow ''2'']) ''3'') = Inr ''Followed''
   \<and> 3 \<in> follow_ids (following (fst (FollowUser (follow_steps [ReqFollow ''2'']) ''3''))) 1
   \<and> 1 \<in> follow_ids (followers (fst (FollowUser (follow_steps [ReqFollow ''2'']) ''3''))) 3
   \<and> snd (UnfollowUser (follow_steps [ReqFollow ''2'']) ''2'') = Inr ''Unfollowed''
   \<and> 2 \<notin> follow_ids (following (fst (UnfollowUser (follow_steps [ReqFollow ''2'']) ''2''))) 1
   \<and> 1 \<notin> follow_ids (followers (fst (UnfollowUser (follow_steps [ReqFollow ''2'']) ''2''))) 2
   \<and> 2 \<in> follow_ids (following (follow_steps [ReqFollow ''2''])) 1
   \<and> FollowUser (follow_steps [ReqFollow ''2'']) ''2'' = ((follow_steps [ReqFollow ''2'']), Inl BadRequest)
   \<and> 3 \<notin> follow_ids (following (follow_steps [ReqFollow ''2''])) 1
   \<and> UnfollowUser (follow_steps [ReqFollow ''2'']) ''3'' = ((follow_steps [ReqFollow ''2'']), Inl Forbidden)"
proof -
  have fl: "list_at (following (follow_steps [ReqFollow ''2''])) 1 =
      [\<lparr>follow_UserID = 2, follow_Username = ''user'' @ Itoa 2, follow_Avatar = []\<rparr>]"
    by (simp add: follow_steps_def NewFollowsHandler_def FollowUser_def Atoi_2 list_at_def Let_def)
  have i2: "2 \<in> follow_ids (following (follow_steps [ReqFollow ''2''])) 1" and i3: "3 \<notin> follow_ids (following (follow_steps [ReqFollow ''2''])) 1"
    by (simp_all add: follow_ids_def fl)
  have f3: "snd (FollowUser (follow_steps [ReqFollow ''2'']) ''3'') = Inr ''Followed''"
    by (simp add: FollowUser_def Atoi_3 fl Let_def)
  have u2: "snd (UnfollowUser (follow_steps [ReqFollow ''2'']) ''2'') = Inr ''Unfollowed''"
    by (simp add: UnfollowUser_def Atoi_2 fl Let_def)
  note t3 = follow_symmetry [of "[ReqFollow ''2'']" "''3''" "''Followed''", unfolded Atoi_3 fst_conv]
  note t2 = follow_symmetry [of "[ReqFollow ''2'']" "''2''" "''Unfollowed''", unfolded Atoi_2 fst_conv]
  from t3 f3 i3 t2 u2 i2 show ?thesis by blast
qed

subsection \<open>Feed cursor\<close>

lemma feed_loop_positive:
  "1 \<le> limit \<Longrightarrow> int (length result) < limit \<Longrightarrow>
   feed_loop parse beforeTime beforeStr limit fs result =
     take (nat limit) (result @ filter (\<lambda>f. Before (parse (feed_CreatedAt f)) beforeTime \<or> beforeStr = []) fs)"
proof (induction fs arbitrary: result)
  case Nil
  then show ?case by simp
next
  case (Cons f fs)
  show ?case
  proof (cases "Before (parse (feed_CreatedAt f)) beforeTime \<or> beforeStr = []")
    case False
    then show ?thesis using Cons.IH [OF Cons.prems] by simp
  next
    case True
    show ?thesis
    proof (cases "int (length (result @ [f])) \<ge> limit")
      case full: True
      with Cons.prems have "nat limit = length (result @ [f])" by simp
      then have "take (nat limit) ((result @ [f]) @ filter (\<lambda>f. Before (parse (feed_CreatedAt f)) beforeTime \<or> beforeStr = []) fs)
          = result @ [f]" by (metis append_eq_conv_conj)
      with True full show ?thesis by simp
    next
      case more: False
      then have "int (length (result @ [f])) < limit" by simp
      from Cons.IH [OF Cons.prems(1) this] True more show ?thesis by simp
    qed
  qed
qed

lemma Before_Unix:
  "- (2 ^ 63) \<le> c + 62135596800 \<Longrightarrow> c + 62135596800 < 2 ^ 63 \<Longrightarrow>
   Before t (time_Unix c) \<longleftrightarrow> fst t < c \<or> (fst t = c \<and> snd t < 0)"
  by (simp add: Before_def time_Unix_def wrap64_id)

text \<open>
  With a cursor that parses and a limit of at least 1, the handler returns the first
  \<open>limit\<close> items whose creation time is before \<open>time.Unix(cursor, 0)\<close>, in the order of
  the collection, and \<open>next_cursor\<close> is the Unix creation time of the last one, or
  empty. By \<open>Before_Unix\<close> that is strictly before the cursor as long as the cursor
  plus 62135596800 fits 64 bits.
\<close>

lemma feed_page_positive_limit:
  assumes "ParseInt beforeStr = (cursor, None)" and "Atoi limitStr = (limit, None)" and "1 \<le> limit"
  shows "fst (GetNewsFeed parse now h beforeStr limitStr) =
           take (nat limit) (filter (\<lambda>f. Before (parse (feed_CreatedAt f)) (time_Unix cursor)) (feeds h))"
    and "snd (GetNewsFeed parse now h beforeStr limitStr) =
           (if fst (GetNewsFeed parse now h beforeStr limitStr) = [] then []
            else Itoa (Unix (parse (feed_CreatedAt (last (fst (GetNewsFeed parse now h beforeStr limitStr)))))))"
proof -
  from assms(1) have ne: "beforeStr \<noteq> []" by (auto simp: ParseInt_def)
  from assms(2) have nl: "limitStr \<noteq> []" by (auto simp: Atoi_def ParseInt_def)
  have "feed_loop parse (time_Unix cursor) beforeStr limit (feeds h) [] =
      take (nat limit) ([] @ filter (\<lambda>f. Before (parse (feed_CreatedAt f)) (time_Unix cursor) \<or> beforeStr = []) (feeds h))"
    using assms(3) by (intro feed_loop_positive) simp_all
  then have loop: "feed_loop parse (time_Unix cursor) beforeStr limit (feeds h) [] =
      take (nat limit) (filter (\<lambda>f. Before (parse (feed_CreatedAt f)) (time_Unix cursor)) (feeds h))"
    using ne by simp
  show "fst (GetNewsFeed parse now h beforeStr limitStr) =
           take (nat limit) (filter (\<lambda>f. Before (parse (feed_CreatedAt f)) (time_Unix cursor)) (feeds h))"
    using ne nl loop by (simp add: GetNewsFeed_def assms(1,2) Let_def)
  show "snd (GetNewsFeed parse now h beforeStr limitStr) =
           (if fst (GetNewsFeed parse now h beforeStr limitStr) = [] then []
            else Itoa (Unix (parse (feed_CreatedAt (last (fst (GetNewsFeed parse now h beforeStr limitStr)))))))"
    by (simp add: GetNewsFeed_def Let_def)
qed

lemma ParseInt_95: "ParseInt ''95'' = (95, None)"
  by (simp add: ParseInt_def ParseUint_def is_digit_def maxUint64_def)

lemma Itoa_80: "Itoa 80 = ''80''"
  by code_simp

lemma Itoa_90: "Itoa 90 = ''90''"
  by code_simp

text \<open>The specification's example: timestamps 100, 90, 80, cursor 95, limit 10.\<close>

lemma feed_cursor_example:
  "GetNewsFeed (\<lambda>s. if s = ''1970-01-01T00:01:40Z'' then (100, 0) else if s = ''1970-01-01T00:01:30Z'' then (90, 0) else if s = ''1970-01-01T00:01:20Z'' then (80, 0) else zero_Time) (200, 0) \<lparr>feeds = [\<lparr>feed_PostID = 1, feed_UserID = 2, feed_Username = ''u'', feed_Avatar = [], feed_Content = ''c'', feed_MediaURLs = [], feed_CreatedAt = ''1970-01-01T00:01:40Z'', feed_LikeCount = 0, feed_CommentCount = 0, feed_IsLiked = False\<rparr>, \<lparr>feed_PostID = 2, feed_UserID = 2, feed_Username = ''u'', feed_Avatar = [], feed_Content = ''c'', feed_MediaURLs = [], feed_CreatedAt = ''1970-01-01T00:01:30Z'', feed_LikeCount = 0, feed_CommentCount = 0, feed_IsLiked = False\<rparr>, \<lparr>feed_PostID = 3, feed_UserID = 2, feed_Username = ''u'', feed_Avatar = [], feed_Content = ''c'', feed_MediaURLs = [], feed_CreatedAt = ''1970-01-01T00:01:20Z'', feed_LikeCount = 0, feed_CommentCount = 0, feed_IsLiked = False\<rparr>]\<rparr> ''95'' ''10'' = ([\<lparr>feed_PostID = 2, feed_UserID = 2, feed_Username = ''u'', feed_Avatar = [], feed_Content = ''c'', feed_MediaURLs = [], feed_CreatedAt = ''1970-01-01T00:01:30Z'', feed_LikeCount = 0, feed_CommentCount = 0, feed_IsLiked = False\<rparr>, \<lparr>feed_PostID = 3, feed_UserID = 2, feed_Username = ''u'', feed_Avatar = [], feed_Content = ''c'', feed_MediaURLs = [], feed_CreatedAt = ''1970-01-01T00:01:20Z'', feed_LikeCount = 0, feed_CommentCount = 0, feed_IsLiked = False\<rparr>], ''80'')"
  by (simp add: GetNewsFeed_def ParseInt_95 Atoi_10 Before_def time_Unix_def Unix_def wrap64_def Itoa_80 Let_def)

text \<open>
  C6 (the code at a failing input). The claim has the handler return the posts created
  strictly before the cursor, up to \<open>limit\<close> of them. The loop tests the length after
  it has appended, so with \<open>limit=0\<close> it still returns the first such post: for the
  timestamps 100, 90, 80 and cursor 95 it returns the post at 90 with \<open>next_cursor\<close>
  \<open>"90"\<close>, where the claim allows no item and an empty cursor.
\<close>

theorem feed_limit_zero_returns_one:
  "GetNewsFeed (\<lambda>s. if s = ''1970-01-01T00:01:40Z'' then (100, 0) else if s = ''1970-01-01T00:01:30Z'' then (90, 0) else if s = ''1970-01-01T00:01:20Z'' then (80, 0) else zero_Time) (200, 0) \<lparr>feeds = [\<lparr>feed_PostID = 1, feed_UserID = 2, feed_Username = ''u'', feed_Avatar = [], feed_Content = ''c'', feed_MediaURLs = [], feed_CreatedAt = ''1970-01-01T00:01:40Z'', feed_LikeCount = 0, feed_CommentCount = 0, feed_IsLiked = False\<rparr>, \<lparr>feed_PostID = 2, feed_UserID = 2, feed_Username = ''u'', feed_Avatar = [], feed_Content = ''c'', feed_MediaURLs = [], feed_CreatedAt = ''1970-01-01T00:01:30Z'', feed_LikeCount = 0, feed_CommentCount = 0, feed_IsLiked = False\<rparr>, \<lparr>feed_PostID = 3, feed_UserID = 2, feed_Username = ''u'', feed_Avatar = [], feed_Content = ''c'', feed_MediaURLs = [], feed_CreatedAt = ''1970-01-01T00:01:20Z'', feed_LikeCount = 0, feed_CommentCount = 0, feed_IsLiked = False\<rparr>]\<rparr> ''95'' ''0'' = ([\<lparr>feed_PostID = 2, feed_UserID = 2, feed_Username = ''u'', feed_Avatar = [], feed_Content = ''c'', feed_MediaURLs = [], feed_CreatedAt = ''1970-01-01T00:01:30Z'', feed_LikeCount = 0, feed_CommentCount = 0, feed_IsLiked = False\<rparr>], ''90'')"
  by (simp add: GetNewsFeed_def ParseInt_95 Atoi_0 Before_def time_Unix_def Unix_def wrap64_def Itoa_90 Let_def)

end
